theory Spec2Isabelle
  imports Complex_Main "HOL-Library.AList"
begin

section \<open>Latency functions (analysis\_utils/latency\_functions.py)\<close>

text \<open>
  Floating-point numbers are idealised: a float64 is a \<^typ>\<open>real\<close>, and the one special
  value the latency code produces on purpose, \<open>np.nan\<close>, is a constructor of its own.
  Rounding and overflow of float64 are outside this model.
\<close>

datatype npfloat = NaN | Fl real

datatype py_error =
    UnboundLocalError string
  | AttributeError string
  | AssertionError string
  | Exception string
  | IndexError string
  | KeyError string
  | ValueError string

subsection \<open>Helper functions for the Poisson distribution\<close>

text \<open>The lookup table for factorials, an int64 array of 21 entries.\<close>

definition LOOKUP_TABLE :: "int list" where
  "LOOKUP_TABLE =
    [1, 1, 2, 6, 24, 120, 720, 5040, 40320, 362880, 3628800, 39916800, 479001600,
     6227020800, 87178291200, 1307674368000, 20922789888000, 355687428096000,
     6402373705728000, 121645100408832000, 2432902008176640000]"

text \<open>
  \<open>math.gamma\<close> belongs to Python's standard library. The code calls it at \<open>k + 1\<close> for an
  integer \<open>k > 20\<close> only; at a positive integer \<open>n\<close> the Gamma function is \<open>(n - 1)!\<close>.
\<close>

definition math_gamma :: "nat \<Rightarrow> real" where
  "math_gamma n = fact (n - 1)"

text \<open>
  The value \<open>factorial\<close> returns is an entry of the integer table or a float. Its callers
  pass \<open>k\<close> from \<open>range(k + 1)\<close>, so \<open>k\<close> is a natural number.
\<close>

datatype pynum = IntV int | FloatV real

fun to_float :: "pynum \<Rightarrow> real" where
  "to_float (IntV i) = real_of_int i"
| "to_float (FloatV x) = x"

definition factorial :: "nat \<Rightarrow> pynum" where
  "factorial k = (if k \<le> 20 then IntV (LOOKUP_TABLE ! k) else FloatV (math_gamma (k + 1)))"

definition poisson_pdf :: "nat \<Rightarrow> real \<Rightarrow> real" where
  "poisson_pdf k mu = (mu ^ k) / to_float (factorial k) * exp (- mu)"

text \<open>
  \<open>for k in range(k + 1): value += poisson_pdf(k, mu)\<close>, from \<open>value = 0.0\<close>. The caller
  passes \<open>int(np.sum(...) - 1)\<close>, which is \<open>-1\<close> for an empty count: the range is then empty.
\<close>

definition poisson_cdf :: "int \<Rightarrow> real \<Rightarrow> real" where
  "poisson_cdf k mu = fold (\<lambda>i v. v + poisson_pdf i mu) [0 ..< nat (k + 1)] 0"

subsection \<open>latency\_core\_stats\<close>

text \<open>
  A two-dimensional count array is the list of its rows (one row per trial); all rows
  have the same length, the number of bins.
\<close>

type_synonym counts = "int list list"

definition n_cols :: "counts \<Rightarrow> nat" where
  "n_cols firing_data = (case firing_data of [] \<Rightarrow> 0 | r # _ \<Rightarrow> length r)"

text \<open>
  \<open>latency_core_stats\<close> is compiled by numba (\<open>@jit(nopython=True)\<close>). A local variable
  that is read before any assignment holds zero in the compiled function, where the
  interpreter would raise UnboundLocalError: \<open>n_bin\<close> and \<open>trial\<close> start at 0.

  The inner loop \<open>for n_bin in range(shape[1] - 1)\<close> with its \<open>break\<close>. The loop variable
  outlives the loop, so the function returns the value \<open>n_bin\<close> is left with: the bin at
  which the loop broke, the last bin of the range when it never broke, and the value it
  had before (\<open>cur\<close>) when the range is empty.
\<close>

fun scan_bins :: "real \<Rightarrow> int list \<Rightarrow> real \<Rightarrow> nat list \<Rightarrow> nat \<Rightarrow> nat" where
  "scan_bins bsl_fr row time_bin_size [] cur = cur"
| "scan_bins bsl_fr row time_bin_size (n_bin # rest) cur =
     (let final_prob = 1 - poisson_cdf (sum_list (take (n_bin + 1) row) - 1)
                             (bsl_fr * (real (n_bin + 1) * time_bin_size))
      in if final_prob \<le> 10 / 10 ^ 6 then n_bin
         else scan_bins bsl_fr row time_bin_size rest n_bin)"

text \<open>
  The outer loop \<open>for trial in range(shape[0])\<close>. Its body is the inner loop alone: the
  assignment to \<open>latency[trial]\<close> stands after both loops. The state carried through is the
  pair of loop variables \<open>(trial, n_bin)\<close>.
\<close>

fun trial_loop :: "real \<Rightarrow> counts \<Rightarrow> real \<Rightarrow> nat list \<Rightarrow> nat \<times> nat \<Rightarrow> nat \<times> nat" where
  "trial_loop bsl_fr firing_data time_bin_size [] st = st"
| "trial_loop bsl_fr firing_data time_bin_size (trial # rest) st =
     trial_loop bsl_fr firing_data time_bin_size rest
       (trial,
        scan_bins bsl_fr (firing_data ! trial) time_bin_size
          [0 ..< n_cols firing_data - 1] (snd st))"

text \<open>
  After the loops one cell is written, \<open>latency[trial]\<close>. (With no trial at all the array
  is empty and there is no cell to write; the update of an empty list leaves it empty.)
\<close>

definition latency_core_stats :: "real \<Rightarrow> counts \<Rightarrow> real \<Rightarrow> npfloat list" where
  "latency_core_stats bsl_fr firing_data time_bin_size =
     (let latency = replicate (length firing_data) (Fl 0);
          (trial, n_bin) = trial_loop bsl_fr firing_data time_bin_size
                             [0 ..< length firing_data] (0, 0)
      in if int n_bin = int (n_cols firing_data) - 2
         then latency[trial := NaN]
         else latency[trial := Fl (real (n_bin + 1) * time_bin_size)])"

subsection \<open>latency\_median\<close>

text \<open>\<open>np.nonzero(row)[0]\<close>: the indices of the non-zero entries, ascending.\<close>

definition np_nonzero :: "int list \<Rightarrow> nat list" where
  "np_nonzero row = filter (\<lambda>i. row ! i \<noteq> 0) [0 ..< length row]"

text \<open>\<open>np.min\<close> and \<open>np.max\<close> of a non-empty array (the callers check for emptiness).\<close>

definition np_min :: "'a::linorder list \<Rightarrow> 'a" where
  "np_min xs = fold min (tl xs) (hd xs)"

definition np_max :: "'a::linorder list \<Rightarrow> 'a" where
  "np_max xs = fold max (tl xs) (hd xs)"

definition latency_median_trial :: "int list \<Rightarrow> real \<Rightarrow> npfloat" where
  "latency_median_trial row time_bin_size =
     (let min_spike_time = np_nonzero row
      in if length min_spike_time = 0 then NaN
         else Fl (real (np_min min_spike_time + 1) * time_bin_size))"

text \<open>
  The loop over the trials writes \<open>latency[trial]\<close> in each iteration, so the result is the
  list of the per-trial values.
\<close>

definition latency_median :: "counts \<Rightarrow> real \<Rightarrow> npfloat list" where
  "latency_median firing_counts time_bin_size =
     map (\<lambda>trial. latency_median_trial (firing_counts ! trial) time_bin_size)
       [0 ..< length firing_counts]"

section \<open>The analysis session (spike\_analysis.py)\<close>

subsection \<open>Array helpers\<close>

text \<open>Boolean masks: \<open>bins >= x\<close>, \<open>np.logical_and(bins >= lo, bins <= hi)\<close>, \<open>trials == trial\<close>.\<close>

definition mask_ge :: "real list \<Rightarrow> real \<Rightarrow> bool list" where
  "mask_ge bins x = map (\<lambda>b. b \<ge> x) bins"

definition mask_between :: "real list \<Rightarrow> real \<Rightarrow> real \<Rightarrow> bool list" where
  "mask_between bins lo hi = map (\<lambda>b. b \<ge> lo \<and> b \<le> hi) bins"

definition mask_eq :: "int list \<Rightarrow> int \<Rightarrow> bool list" where
  "mask_eq trials trial = map (\<lambda>g. g = trial) trials"

text \<open>Boolean indexing \<open>xs[msk]\<close>: the entries at the True positions, in order.\<close>

definition select :: "bool list \<Rightarrow> 'a list \<Rightarrow> 'a list" where
  "select msk xs = map fst (filter snd (zip xs msk))"

text \<open>
  Assignment through a mask, \<open>arr[msk] = vals\<close>: the \<open>k\<close>-th True position receives the
  \<open>k\<close>-th value. \<open>rank msk p\<close> counts the True positions before \<open>p\<close>. (numpy rejects a
  \<open>vals\<close> whose length is not the number of True positions; the code always assigns the
  result of a latency function on the selected rows, one value per row.)
\<close>

definition rank :: "bool list \<Rightarrow> nat \<Rightarrow> nat" where
  "rank msk p = length (filter id (take p msk))"

definition assign_masked :: "bool list \<Rightarrow> 'a list \<Rightarrow> 'a list \<Rightarrow> 'a list" where
  "assign_masked msk vals arr =
     map (\<lambda>p. if msk ! p then vals ! rank msk p else arr ! p) [0 ..< length arr]"

text \<open>\<open>np.unique\<close>: the distinct values, sorted.\<close>

definition np_unique :: "int list \<Rightarrow> int list" where
  "np_unique xs = sort (remdups xs)"

text \<open>
  \<open>np.mean\<close> of a one-dimensional array. For an empty array numpy gives NaN with a warning,
  where HOL's division gives 0: the properties below are stated for at least one trial.
\<close>

definition np_mean :: "real list \<Rightarrow> real" where
  "np_mean xs = sum_list xs / real (length xs)"

text \<open>\<open>np.int32(x)\<close>, \<open>np.int64(x)\<close> and \<open>int(x)\<close> of a float: truncation towards zero.\<close>

definition trunc :: "real \<Rightarrow> int" where
  "trunc x = (if 0 \<le> x then \<lfloor>x\<rfloor> else \<lceil>x\<rceil>)"

fun fmul :: "real \<Rightarrow> npfloat \<Rightarrow> npfloat" where
  "fmul c NaN = NaN"
| "fmul c (Fl x) = Fl (c * x)"

text \<open>
  A \<open>for\<close> loop whose body may raise: the state reached so far is kept with the error,
  as the object mutated in place keeps what was written before the exception.
\<close>

fun for_loop :: "('a \<Rightarrow> 's \<Rightarrow> py_error option \<times> 's) \<Rightarrow> 'a list \<Rightarrow> 's \<Rightarrow> py_error option \<times> 's" where
  "for_loop body [] s = (None, s)"
| "for_loop body (x # xs) s =
     (case body x s of
        (Some e, s') \<Rightarrow> (Some e, s')
      | (None, s') \<Rightarrow> for_loop body xs s')"

subsection \<open>Session data\<close>

type_synonym psth3 = "int list list list"

record event_entry =
  ev_events :: "int list"
  ev_stim :: string
  ev_trial_groups :: "int list"

record stim_psth =
  sp_psth :: psth3
  sp_bins :: "real list"

text \<open>
  The two arrays of \<open>self.latency[stim]\<close>. Both start as \<open>np.empty\<close>: a cell holds nothing
  (\<open>None\<close>) until it is assigned.
\<close>

record latency_entry =
  lat_latency :: "npfloat option list list"
  lat_shuffled :: "npfloat option list list list"

text \<open>
  The attributes of a \<open>SpikeAnalysis\<close> object. Those created by a later stage are absent
  (\<open>None\<close>) until that stage has run; reading an absent attribute raises AttributeError.
  Dictionaries keyed by stimulus name keep their insertion order.
\<close>

record session =
  self_events :: "(string \<times> event_entry) list"
  self_raw_spike_times :: "int list"
  self_spike_clusters :: "int list"
  self_cluster_ids :: "int list"
  self_sampling_rate :: real
  self_NUM_STIM :: "nat option"
  self_psths :: "(string \<times> stim_psth) list option"
  self_fr_windows :: "(string \<times> real list) list option"
  self_fr_bins :: "(string \<times> real list) list option"
  self_raw_firing_rate :: "(string \<times> real list list list) list option"
  self_mean_firing_rate :: "(string \<times> real list list list) list option"
  self_z_windows :: "(string \<times> real list) list option"
  self_z_bins :: "(string \<times> real list) list option"
  self_raw_zscores :: "(string \<times> real list list list) list option"
  self_z_scores :: "(string \<times> real list list list) list option"
  self_latency_time_bin :: "real option"
  self_latency :: "(string \<times> latency_entry) list option"

text \<open>\<open>_get_key_for_stim\<close>: stimulus name to channel; a later channel replaces an earlier one.\<close>

definition get_key_for_stim :: "session \<Rightarrow> (string \<times> string) list" where
  "get_key_for_stim self =
     fold (\<lambda>(channel, entry) stim_dict. AList.update (ev_stim entry) channel stim_dict)
       (self_events self) []"

text \<open>\<open>self.events[stim_dict[stim]]["trial_groups"]\<close>, with the two dictionary lookups.\<close>

definition trial_groups_of :: "session \<Rightarrow> (string \<times> string) list \<Rightarrow> string \<Rightarrow> py_error + int list" where
  "trial_groups_of self stim_dict stim =
     (case map_of stim_dict stim of
        None \<Rightarrow> Inl (KeyError stim)
      | Some channel \<Rightarrow>
          (case map_of (self_events self) channel of
             None \<Rightarrow> Inl (KeyError channel)
           | Some entry \<Rightarrow> Inr (ev_trial_groups entry)))"

subsection \<open>latencies\<close>

definition n_trials :: "psth3 \<Rightarrow> nat" where
  "n_trials psth = (case psth of [] \<Rightarrow> 0 | c # _ \<Rightarrow> length c)"

text \<open>
  The baseline rate of every cluster: per trial, the counts of the baseline bins summed and
  divided by the baseline duration; then the mean over all trials (\<open>axis=1\<close>). A window
  has its start before its end, so the duration is not zero.
\<close>

definition bsl_values :: "psth3 \<Rightarrow> real list \<Rightarrow> real list \<Rightarrow> real list" where
  "bsl_values psth bins current_bsl =
     map (\<lambda>cluster.
            np_mean (map (\<lambda>row. real_of_int (sum_list
                        (select (mask_between bins (current_bsl ! 0) (current_bsl ! 1)) row))
                      / (current_bsl ! 1 - current_bsl ! 0)) cluster))
       psth"

text \<open>
  \<open>np.random.rand(...) * (current_bsl[1] - current_bsl[0]) + current_bsl[0]\<close>. The random
  array is an input of the model: \<open>rnd cluster t_number shuffle\<close> is the number drawn for
  that cell, in the interval \<open>[0, 1)\<close>.
\<close>

definition bsl_shuffled :: "(nat \<Rightarrow> nat \<Rightarrow> nat \<Rightarrow> real) \<Rightarrow> real list \<Rightarrow> nat \<Rightarrow> nat \<Rightarrow> nat \<Rightarrow> real" where
  "bsl_shuffled rnd current_bsl cluster t_number shuffle =
     rnd cluster t_number shuffle * (current_bsl ! 1 - current_bsl ! 0) + current_bsl ! 0"

text \<open>\<open>self.latency[stim]["latency"][idx, trials == trial] = 1000 * vals\<close>.\<close>

definition store_latency :: "nat \<Rightarrow> bool list \<Rightarrow> npfloat list \<Rightarrow> latency_entry \<Rightarrow> latency_entry" where
  "store_latency idx msk vals out =
     out\<lparr>lat_latency := (lat_latency out)
            [idx := assign_masked msk (map (\<lambda>v. Some (fmul 1000 v)) vals) (lat_latency out ! idx)]\<rparr>"

text \<open>\<open>self.latency[stim]["latency_shuffled"][idx, trials == trial, shuffle] = 1000 * vals\<close>.\<close>

definition store_shuffled :: "nat \<Rightarrow> bool list \<Rightarrow> nat \<Rightarrow> npfloat list \<Rightarrow> latency_entry \<Rightarrow> latency_entry" where
  "store_shuffled idx msk shuffle vals out =
     out\<lparr>lat_shuffled := (lat_shuffled out)
            [idx := map (\<lambda>p. if msk ! p
                              then (lat_shuffled out ! idx ! p)
                                     [shuffle := Some (fmul 1000 (vals ! rank msk p))]
                              else lat_shuffled out ! idx ! p)
                      [0 ..< length (lat_shuffled out ! idx)]]\<rparr>"

text \<open>
  The body of \<open>for shuffle in range(num_shuffles)\<close>, for a latency function \<open>f\<close>: the
  counts are restricted to the bins at or after the reference of this shuffle.
\<close>

definition shuffle_step :: "(counts \<Rightarrow> npfloat list) \<Rightarrow> counts \<Rightarrow> real list
    \<Rightarrow> (nat \<Rightarrow> real) \<Rightarrow> nat \<Rightarrow> bool list \<Rightarrow> nat \<Rightarrow> latency_entry \<Rightarrow> latency_entry" where
  "shuffle_step f psth_by_trial bins refs idx msk shuffle out =
     store_shuffled idx msk shuffle
       (f (map (select (mask_ge bins (refs shuffle))) psth_by_trial)) out"

text \<open>One branch of the \<open>if\<close>: the latency from onset, then the loop over the shuffles.\<close>

definition latency_and_shuffles :: "(counts \<Rightarrow> npfloat list) \<Rightarrow> counts \<Rightarrow> real list
    \<Rightarrow> (nat \<Rightarrow> real) \<Rightarrow> nat \<Rightarrow> bool list \<Rightarrow> nat \<Rightarrow> latency_entry \<Rightarrow> latency_entry" where
  "latency_and_shuffles f psth_by_trial bins refs idx msk num_shuffles out =
     fold (shuffle_step f psth_by_trial bins refs idx msk) [0 ..< num_shuffles]
       (store_latency idx msk (f (map (select (mask_ge bins 0)) psth_by_trial)) out)"

text \<open>
  The body of \<open>for idx in range(len(bsl_values))\<close>: one cluster, the trials of one trial
  group. The two branches differ in the latency function alone.
\<close>

definition cluster_step :: "psth3 \<Rightarrow> real list \<Rightarrow> int list \<Rightarrow> real list
    \<Rightarrow> (nat \<Rightarrow> nat \<Rightarrow> nat \<Rightarrow> real) \<Rightarrow> real \<Rightarrow> nat \<Rightarrow> nat \<Rightarrow> int \<Rightarrow> nat \<Rightarrow> latency_entry
    \<Rightarrow> latency_entry" where
  "cluster_step psth bins trials bsl_vals bsl_sh final_time_bin_size num_shuffles
       t_number trial idx out =
     (let psth_by_trial = select (mask_eq trials trial) (psth ! idx);
          bsl_fr = bsl_vals ! idx;
          bsl_shuffled_trial_cluster = bsl_sh idx t_number
      in if bsl_fr > 2
         then latency_and_shuffles (\<lambda>d. latency_core_stats bsl_fr d final_time_bin_size)
                psth_by_trial bins bsl_shuffled_trial_cluster idx (mask_eq trials trial)
                num_shuffles out
         else latency_and_shuffles (\<lambda>d. latency_median d final_time_bin_size)
                psth_by_trial bins bsl_shuffled_trial_cluster idx (mask_eq trials trial)
                num_shuffles out)"

text \<open>
  One stimulus, from the re-binned tensor on: the bin width (\<open>bins[1] - bins[0]\<close>, an
  IndexError on fewer than two bins), the random references, the two empty result arrays,
  the baseline rates, and the loops over the trial groups and the clusters, which raise
  nothing.
\<close>

definition latencies_stim :: "(nat \<Rightarrow> nat \<Rightarrow> nat \<Rightarrow> real) \<Rightarrow> psth3 \<Rightarrow> real list \<Rightarrow> int list
    \<Rightarrow> real list \<Rightarrow> nat \<Rightarrow> py_error option \<times> latency_entry" where
  "latencies_stim rnd psth bins trials current_bsl num_shuffles =
     (let trial_set = np_unique trials;
          out0 = \<lparr>lat_latency = replicate (length psth) (replicate (n_trials psth) None),
                  lat_shuffled = replicate (length psth)
                     (replicate (n_trials psth) (replicate num_shuffles None))\<rparr>
      in if length bins < 2 then (Some (IndexError ''bins''), out0)
         else
           (let final_time_bin_size = bins ! 1 - bins ! 0;
                bsl_sh = bsl_shuffled rnd current_bsl;
                bsl_vals = bsl_values psth bins current_bsl
            in (None,
                fold (\<lambda>(t_number, trial).
                        fold (cluster_step psth bins trials bsl_vals bsl_sh final_time_bin_size
                                num_shuffles t_number trial)
                          [0 ..< length bsl_vals])
                  (enumerate 0 trial_set) out0)))"

subsection \<open>Functions of the package that the analysis calls\<close>

text \<open>
  \<open>verify_window_format\<close> and \<open>gaussian_smoothing\<close> (utils) and \<open>spike_times_to_bins\<close>,
  \<open>convert_to_new_bins\<close>, \<open>convert_bins\<close> and \<open>z_score_values\<close> (histogram\_functions) are
  defined in modules other than the two modelled here; they are parameters of the model.
  \<open>'w\<close> is the type of a window argument as the caller gives it;
  \<open>verify_window_format\<close> returns one window per stimulus or raises.
\<close>

record 'w helpers =
  verify_window_format :: "'w \<Rightarrow> nat \<Rightarrow> py_error + real list list"
  spike_times_to_bins :: "int list \<Rightarrow> int list \<Rightarrow> int \<Rightarrow> int \<Rightarrow> int \<Rightarrow> int list list \<times> real list"
  convert_to_new_bins :: "psth3 \<Rightarrow> int \<Rightarrow> psth3"
  convert_bins :: "real list \<Rightarrow> int \<Rightarrow> real list"
  gaussian_smoothing :: "real list list \<Rightarrow> real \<Rightarrow> real \<Rightarrow> real list list"
  z_score_values :: "real list list list \<Rightarrow> real list \<Rightarrow> real list \<Rightarrow> real list list list"

text \<open>An argument that is one number for all stimuli or a list with one number per stimulus.\<close>

datatype scalar_or_list = Scalar real | PerStim "real list"

text \<open>What the methods print, without the formatting of the text.\<close>

datatype message =
    StimName string
  | MinimumBinSize real
  | MultispikeBins nat

subsection \<open>get\_raw\_psth\<close>

text \<open>
  \<open>np.where(spikes_array > 1)\<close>: the (row, column) positions of the cells greater than one,
  row by row; component \<open>[0]\<close> holds the rows and \<open>[1]\<close> the columns.
\<close>

definition np_where_gt1 :: "int list list \<Rightarrow> nat list \<times> nat list" where
  "np_where_gt1 a =
     (let cells = concat (map (\<lambda>r. map (\<lambda>c. (r, c))
                                     (filter (\<lambda>c. a ! r ! c > 1) [0 ..< length (a ! r)]))
                              [0 ..< length a])
      in (map fst cells, map snd cells))"

text \<open>
  The body of \<open>for idy, cluster in enumerate(cluster_ids)\<close>. The state is the tensor, the
  counter \<open>multispike_bin\<close> and the variable \<open>bins_sub\<close>, unbound before the first cluster.
  (\<open>psth[idy] = spikes_array\<close> needs an array of the shape of \<open>psth[idy]\<close>, which is what the
  binning helper is called for.)
\<close>

definition psth_cluster_step :: "'w helpers \<Rightarrow> int list \<Rightarrow> int list \<Rightarrow> int list \<Rightarrow> int \<Rightarrow> int \<Rightarrow> int
    \<Rightarrow> nat \<times> int \<Rightarrow> psth3 \<times> nat \<times> real list option \<Rightarrow> psth3 \<times> nat \<times> real list option" where
  "psth_cluster_step h current_spikes current_spike_clusters events time_bin_size
       window_start window_end = (\<lambda>(idy, cluster) (psth, multispike_bin, bins_sub).
     (let (spikes_array, bins_sub') =
            spike_times_to_bins h
              (select (map (\<lambda>c. c = cluster) current_spike_clusters) current_spikes)
              events time_bin_size window_start window_end
      in (psth[idy := spikes_array],
          (if length (fst (np_where_gt1 spikes_array)) \<noteq> 0
              \<or> length (snd (np_where_gt1 spikes_array)) \<noteq> 0
           then multispike_bin + 1 else multispike_bin),
          Some bins_sub')))"

text \<open>
  The body of \<open>for idx, stimulus in enumerate(self.events.keys())\<close>. The state is the local
  dictionary \<open>psths\<close> and the printed output. The sampling rate is positive, so the
  integer bin size is not zero once the assertion of \<open>get_raw_psth\<close> has passed.
\<close>

definition psth_stim_step :: "'w helpers \<Rightarrow> session \<Rightarrow> real list list \<Rightarrow> int
    \<Rightarrow> nat \<times> string \<times> event_entry
    \<Rightarrow> (string \<times> stim_psth) list \<times> message list
    \<Rightarrow> py_error option \<times> (string \<times> stim_psth) list \<times> message list" where
  "psth_stim_step h self windows time_bin_size = (\<lambda>(idx, stimulus, entry) (psths, out).
     (let events = ev_events entry;
          stim_name = ev_stim entry;
          out1 = out @ [StimName stim_name]
      in if \<not> idx < length windows then (Some (IndexError ''windows''), psths, out1)
         else
          (let current_window = windows ! idx;
               window_start = trunc (current_window ! 0 * self_sampling_rate self);
               window_end = trunc (current_window ! 1 * self_sampling_rate self);
               psth0 = replicate (length (self_cluster_ids self))
                         (replicate (length events)
                            (replicate (nat (trunc (real_of_int (window_end - window_start)
                                                      / real_of_int time_bin_size))) 0))
           in if events = [] then (Some (ValueError ''zero-size array''), psths, out1)
              else
               (let min_time = np_min events + window_start;
                    max_time = np_max events + window_end;
                    keep = map (\<lambda>t. t > min_time \<and> t < max_time) (self_raw_spike_times self);
                    current_spike_clusters = select keep (self_spike_clusters self);
                    current_spikes = select keep (self_raw_spike_times self);
                    (psth, multispike_bin, bins_sub) =
                       fold (psth_cluster_step h current_spikes current_spike_clusters events
                               time_bin_size window_start window_end)
                         (enumerate 0 (self_cluster_ids self)) (psth0, 0, None);
                    out2 = (if multispike_bin \<noteq> 0
                            then out1 @ [MinimumBinSize (1000 / self_sampling_rate self),
                                         MultispikeBins multispike_bin]
                            else out1)
                in case bins_sub of
                     None \<Rightarrow> (Some (UnboundLocalError ''bins_sub''), psths, out2)
                   | Some b \<Rightarrow>
                       (None,
                        AList.update stim_name
                          \<lparr>sp_psth = psth,
                           sp_bins = map (\<lambda>x. x / self_sampling_rate self) b\<rparr> psths,
                        out2)))))"

text \<open>
  \<open>psths\<close> is a local dictionary: the object receives it, with \<open>NUM_STIM\<close>, in the last two
  statements only. The result is the error if any, the object and the printed output.
\<close>

definition get_raw_psth :: "'w helpers \<Rightarrow> session \<Rightarrow> 'w \<Rightarrow> real
    \<Rightarrow> py_error option \<times> session \<times> message list" where
  "get_raw_psth h self window time_bin_ms =
     (if \<not> time_bin_ms \<ge> 1000 / self_sampling_rate self
      then (Some (AssertionError ''time bin size is less than sampling rate of recording''),
            self, [])
      else
       (let time_bin_size = trunc ((time_bin_ms / 1000) * self_sampling_rate self);
            TOTAL_STIM = length (self_events self)
        in case verify_window_format h window TOTAL_STIM of
             Inl e \<Rightarrow> (Some e, self, [])
           | Inr windows \<Rightarrow>
               (case for_loop (psth_stim_step h self windows time_bin_size)
                       (enumerate 0 (self_events self)) ([], []) of
                  (Some e, (psths, out)) \<Rightarrow> (Some e, self, out)
                | (None, (psths, out)) \<Rightarrow>
                    (None,
                     self\<lparr>self_NUM_STIM := Some TOTAL_STIM, self_psths := Some psths\<rparr>,
                     out))))"

text \<open>
  The number of (cluster, event, bin) cells of a tensor that hold more than one spike, the
  quantity the message of \<open>get_raw_psth\<close> names.
\<close>

definition cells_gt1 :: "psth3 \<Rightarrow> nat" where
  "cells_gt1 psth = sum_list (map (\<lambda>a. sum_list (map (\<lambda>row. length (filter (\<lambda>x. x > 1) row)) a)) psth)"

subsection \<open>Steps shared by the derivation stages\<close>

text \<open>A step that may raise: on an error the state reached so far is returned with it.\<close>

definition try_step :: "py_error + 'a \<Rightarrow> 's \<Rightarrow> ('a \<Rightarrow> py_error option \<times> 's) \<Rightarrow> py_error option \<times> 's" where
  "try_step m s k = (case m of Inl e \<Rightarrow> (Some e, s) | Inr x \<Rightarrow> k x)"

text \<open>\<open>xs[i]\<close> on a list, and \<open>bins[1] - bins[0]\<close>.\<close>

definition index_list :: "string \<Rightarrow> 'a list \<Rightarrow> nat \<Rightarrow> py_error + 'a" where
  "index_list name xs i = (if i < length xs then Inr (xs ! i) else Inl (IndexError name))"

definition bin_width :: "real list \<Rightarrow> py_error + real" where
  "bin_width bins = (if length bins < 2 then Inl (IndexError ''bins'') else Inr (bins ! 1 - bins ! 0))"

text \<open>
  \<open>self.attr[key] = value\<close> and an in-place change of \<open>self.attr[key]\<close>, for an attribute
  that holds a dictionary (each stage creates its dictionaries before it uses them).
\<close>

definition dict_set :: "string \<Rightarrow> 'v \<Rightarrow> (string \<times> 'v) list option \<Rightarrow> (string \<times> 'v) list option" where
  "dict_set key v attr = map_option (AList.update key v) attr"

definition dict_change :: "string \<Rightarrow> ('v \<Rightarrow> 'v) \<Rightarrow> (string \<times> 'v) list option \<Rightarrow> (string \<times> 'v) list option" where
  "dict_change key f attr = map_option (AList.map_entry key f) attr"

text \<open>
  The time bins of the stimuli, in seconds: one number for all, or a list whose length
  is asserted.
\<close>

definition resolve_time_bins :: "scalar_or_list \<Rightarrow> nat \<Rightarrow> py_error + real list" where
  "resolve_time_bins time_bin_ms NUM_STIM =
     (case time_bin_ms of
        Scalar x \<Rightarrow> Inr (replicate NUM_STIM (x / 1000))
      | PerStim xs \<Rightarrow>
          if length xs = NUM_STIM then Inr (map (\<lambda>x. x / 1000) xs)
          else Inl (AssertionError ''Please enter the correct number of time bins''))"

text \<open>The tensor and its bins at the requested resolution.\<close>

definition rebin :: "'w helpers \<Rightarrow> psth3 \<Rightarrow> real list \<Rightarrow> int \<Rightarrow> int \<Rightarrow> psth3 \<times> real list" where
  "rebin h psth bins n_bins new_bin_number =
     (if new_bin_number \<noteq> n_bins
      then (convert_to_new_bins h psth new_bin_number, convert_bins h bins new_bin_number)
      else (psth, bins))"

text \<open>
  \<open>np.mean(np.sum(bsl_trial, axis=2), axis=1) / (bsl_current[1] - bsl_current[0])\<close> and the
  same with \<open>np.std\<close>, for the trials of one group: one number per cluster.
\<close>

definition np_std :: "real list \<Rightarrow> real" where
  "np_std xs = sqrt (np_mean (map (\<lambda>x. (x - np_mean xs)\<^sup>2) xs))"

definition group_baseline :: "(real list \<Rightarrow> real) \<Rightarrow> psth3 \<Rightarrow> bool list \<Rightarrow> real list \<Rightarrow> real list" where
  "group_baseline stat bsl_psth msk bsl_current =
     map (\<lambda>cluster. stat (map (\<lambda>row. real_of_int (sum_list row)) (select msk cluster))
                      / (bsl_current ! 1 - bsl_current ! 0))
       bsl_psth"

text \<open>\<open>np.nanmean(x, axis=1)\<close> for one cluster: per bin, the mean over the trials.\<close>

definition mean_over_trials :: "nat \<Rightarrow> real list list \<Rightarrow> real list" where
  "mean_over_trials n rows = map (\<lambda>j. np_mean (map (\<lambda>row. row ! j) rows)) [0 ..< n]"

subsection \<open>get\_raw\_firing\_rate\<close>

text \<open>
  The three branches on \<open>mode\<close> inside the loop over the trial groups. \<open>mean_fr\<close> is bound
  only when a baseline window was given; the last branch reads it.
\<close>

definition fr_mode :: "'w helpers \<Rightarrow> string \<Rightarrow> real list \<Rightarrow> real list \<Rightarrow> nat \<Rightarrow> real list option
    \<Rightarrow> real list list list \<Rightarrow> py_error + real list list list" where
  "fr_mode h mode bins sm_time_ms idx mean_fr fr_trial =
     (if mode = ''raw'' then Inr fr_trial
      else if mode = ''smooth'' then
        (case bin_width bins of
           Inl e \<Rightarrow> Inl e
         | Inr width \<Rightarrow>
             (case index_list ''sm_time_ms'' sm_time_ms idx of
                Inl e \<Rightarrow> Inl e
              | Inr sm \<Rightarrow>
                  (let sm_std0 = real_of_int (trunc (1 / (width * 1000))) * sm;
                       sm_std = (if sm_std0 = 2 * real_of_int \<lfloor>sm_std0 / 2\<rfloor>
                                 then sm_std0 + 1 else sm_std0)
                   in Inr (map (\<lambda>cluster. gaussian_smoothing h cluster width sm_std) fr_trial))))
      else
        (case mean_fr of
           None \<Rightarrow> Inl (UnboundLocalError ''mean_fr'')
         | Some m \<Rightarrow>
             Inr (fold (\<lambda>row ft. ft[row := map (map (\<lambda>x. x - m ! row)) (ft ! row)])
                    [0 ..< length m] fr_trial)))"

text \<open>
  The body of \<open>for trial_number, trial in enumerate(trial_set)\<close>. The state is the object
  and the local dictionary \<open>final_fr\<close>; the arrays stored under \<open>stim\<close> are changed in place.
\<close>

definition fr_trial_step :: "'w helpers \<Rightarrow> string \<Rightarrow> string \<Rightarrow> nat \<Rightarrow> int list \<Rightarrow> psth3
    \<Rightarrow> psth3 option \<Rightarrow> real list option \<Rightarrow> real list \<Rightarrow> bool list \<Rightarrow> real \<Rightarrow> real list
    \<Rightarrow> nat \<times> int
    \<Rightarrow> session \<times> (string \<times> real list list list) list
    \<Rightarrow> py_error option \<times> session \<times> (string \<times> real list list list) list" where
  "fr_trial_step h mode stim idx trials fr_psth bsl_psth bsl_current bins fr_window_values
       time_bin_current sm_time_ms = (\<lambda>(trial_number, trial) (self, final_fr).
     (let msk = mask_eq trials trial;
          mean_fr = (case (bsl_psth, bsl_current) of
                       (Some bp, Some b) \<Rightarrow> Some (group_baseline np_mean bp msk b)
                     | _ \<Rightarrow> None);
          fr_trial = map (\<lambda>cluster. map (map (\<lambda>x. real_of_int x / time_bin_current))
                                      (select msk cluster)) fr_psth
      in try_step (fr_mode h mode bins sm_time_ms idx mean_fr fr_trial) (self, final_fr)
           (\<lambda>fr_trial'.
              (None,
               self\<lparr>self_raw_firing_rate :=
                      dict_change stim
                        (\<lambda>raw. map (\<lambda>c. assign_masked msk (fr_trial' ! c) (raw ! c))
                                  [0 ..< length raw])
                        (self_raw_firing_rate self),
                    self_fr_bins :=
                      dict_set stim (select fr_window_values bins) (self_fr_bins self)\<rparr>,
               AList.map_entry stim
                 (\<lambda>final. map (\<lambda>c. (final ! c)
                                    [trial_number := mean_over_trials
                                       (length (filter id fr_window_values)) (fr_trial' ! c)])
                              [0 ..< length final])
                 final_fr))))"

text \<open>
  The body of \<open>for idx, stim in enumerate(self.psths.keys())\<close>. (The local dictionary \<open>fr\<close>
  is written and never read; it is left out.)
\<close>

definition fr_stim_step :: "'w helpers \<Rightarrow> string \<Rightarrow> (string \<times> string) list \<Rightarrow> real list
    \<Rightarrow> real list list option \<Rightarrow> real list list \<Rightarrow> real list
    \<Rightarrow> nat \<times> string \<times> stim_psth
    \<Rightarrow> session \<times> (string \<times> real list list list) list
    \<Rightarrow> py_error option \<times> session \<times> (string \<times> real list list list) list" where
  "fr_stim_step h mode stim_dict time_bin_size bsl_windows fr_windows sm_time_ms =
     (\<lambda>(idx, stim, entry) (self, final_fr).
        try_step (trial_groups_of self stim_dict stim) (self, final_fr) (\<lambda>trials.
        try_step (index_list ''time_bin_size'' time_bin_size idx) (self, final_fr) (\<lambda>time_bin_current.
        try_step (bin_width (sp_bins entry)) (self, final_fr) (\<lambda>bin_size.
        try_step (case bsl_windows of
                    None \<Rightarrow> Inr None
                  | Some ws \<Rightarrow> map_sum id Some (index_list ''bsl_windows'' ws idx))
                 (self, final_fr) (\<lambda>bsl_current.
        try_step (index_list ''fr_windows'' fr_windows idx) (self, final_fr) (\<lambda>fr_window_current.
          (let trial_set = np_unique trials;
               self1 = self\<lparr>self_fr_windows :=
                              dict_set stim fr_window_current (self_fr_windows self)\<rparr>;
               n_bins = int (length (sp_bins entry));
               new_bin_number = trunc ((real_of_int n_bins * bin_size) / time_bin_current);
               (psth, bins) = rebin h (sp_psth entry) (sp_bins entry) n_bins new_bin_number;
               bsl_psth = map_option
                            (\<lambda>b. map (map (select (mask_between bins (b ! 0) (b ! 1)))) psth)
                            bsl_current;
               fr_window_values =
                 mask_between bins (fr_window_current ! 0) (fr_window_current ! 1);
               fr_psth = map (map (select fr_window_values)) psth;
               n_fr = length (filter id fr_window_values);
               final_fr1 = AList.update stim
                             (replicate (length fr_psth)
                                (replicate (length trial_set) (replicate n_fr 0)))
                             final_fr;
               self2 = self1\<lparr>self_raw_firing_rate :=
                               dict_set stim (map (map (\<lambda>row. replicate n_fr 0)) fr_psth)
                                 (self_raw_firing_rate self1)\<rparr>
           in case for_loop
                     (fr_trial_step h mode stim idx trials fr_psth bsl_psth bsl_current bins
                        fr_window_values time_bin_current sm_time_ms)
                     (enumerate 0 trial_set) (self2, final_fr1) of
                (Some e, st) \<Rightarrow> (Some e, st)
              | (None, (self3, final_fr3)) \<Rightarrow>
                  (None, self3\<lparr>self_mean_firing_rate := Some final_fr3\<rparr>, final_fr3))))))))"

text \<open>
  The checks on the arguments, before anything is stored: the time bins, the baseline
  windows (given only with mode \<open>bsl-subtracted\<close>), the windows, and the smoothing times
  (required with mode \<open>smooth\<close>). No check asks for a baseline window with mode
  \<open>bsl-subtracted\<close>.
\<close>

definition fr_baseline_windows :: "'w helpers \<Rightarrow> string \<Rightarrow> 'w option \<Rightarrow> nat
    \<Rightarrow> py_error + real list list option" where
  "fr_baseline_windows h mode bsl_window NUM_STIM =
     (case bsl_window of
        None \<Rightarrow> Inr None
      | Some w \<Rightarrow>
          (case verify_window_format h w NUM_STIM of
             Inl e \<Rightarrow> Inl e
           | Inr bsl_windows \<Rightarrow>
               if mode = ''bsl-subtracted'' then Inr (Some bsl_windows)
               else Inl (AssertionError ''only give baseline for baseline subtracted'')))"

definition fr_smoothing_times :: "string \<Rightarrow> scalar_or_list option \<Rightarrow> nat \<Rightarrow> py_error + real list" where
  "fr_smoothing_times mode sm_time_ms n_windows =
     (if mode = ''smooth'' then
        (case sm_time_ms of
           None \<Rightarrow> Inl (AssertionError ''to smooth data please give the sm_time_ms'')
         | Some (Scalar x) \<Rightarrow> Inr (replicate n_windows x)
         | Some (PerStim xs) \<Rightarrow>
             if length xs = n_windows then Inr xs
             else Inl (AssertionError
                        ''Enter one smoothing value per stim or one global smoothing value''))
      else Inr [])"

definition get_raw_firing_rate :: "'w helpers \<Rightarrow> session \<Rightarrow> scalar_or_list \<Rightarrow> 'w \<Rightarrow> string
    \<Rightarrow> 'w option \<Rightarrow> scalar_or_list option \<Rightarrow> py_error option \<times> session" where
  "get_raw_firing_rate h self time_bin_ms fr_window mode bsl_window sm_time_ms =
     (case self_psths self of
        None \<Rightarrow> (Some (Exception ''Run get_raw_psth before running z_score_data''), self)
      | Some psths \<Rightarrow>
          (case self_NUM_STIM self of
             None \<Rightarrow> (Some (AttributeError ''NUM_STIM''), self)
           | Some NUM_STIM \<Rightarrow>
               try_step (resolve_time_bins time_bin_ms NUM_STIM) self (\<lambda>time_bin_size.
               try_step (fr_baseline_windows h mode bsl_window NUM_STIM) self (\<lambda>bsl_windows.
               try_step (verify_window_format h fr_window NUM_STIM) self (\<lambda>fr_windows.
               try_step (fr_smoothing_times mode sm_time_ms (length fr_windows)) self (\<lambda>sm_times.
                 (let self1 = self\<lparr>self_fr_windows := Some [], self_fr_bins := Some [],
                                    self_raw_firing_rate := Some []\<rparr>
                  in case for_loop
                            (fr_stim_step h mode (get_key_for_stim self) time_bin_size
                               bsl_windows fr_windows sm_times)
                            (enumerate 0 psths) (self1, []) of
                       (e, self', final_fr) \<Rightarrow> (e, self'))))))))"

subsection \<open>z\_score\_data\<close>

text \<open>
  The same structure as \<open>get_raw_firing_rate\<close>: the guard on \<open>self.psths\<close>, the checks of
  the arguments, then the loops over the stimuli and the trial groups.
\<close>

definition z_trial_step :: "'w helpers \<Rightarrow> string \<Rightarrow> int list \<Rightarrow> psth3 \<Rightarrow> psth3 \<Rightarrow> real list
    \<Rightarrow> bool list \<Rightarrow> real
    \<Rightarrow> nat \<times> int
    \<Rightarrow> session \<times> (string \<times> real list list list) list
    \<Rightarrow> py_error option \<times> session \<times> (string \<times> real list list list) list" where
  "z_trial_step h stim trials z_psth bsl_psth bsl_current z_window_values time_bin_current =
     (\<lambda>(trial_number, trial) (self, final_z_scores).
        (let msk = mask_eq trials trial;
             mean_fr = group_baseline np_mean bsl_psth msk bsl_current;
             std_fr = group_baseline np_std bsl_psth msk bsl_current;
             z_trial = map (\<lambda>cluster. map (map (\<lambda>x. real_of_int x / time_bin_current))
                                        (select msk cluster)) z_psth;
             z_trials = z_score_values h z_trial mean_fr std_fr
         in (None,
             self\<lparr>self_raw_zscores :=
                    dict_change stim
                      (\<lambda>raw. map (\<lambda>c. assign_masked msk (z_trials ! c) (raw ! c))
                                [0 ..< length raw])
                      (self_raw_zscores self)\<rparr>,
             AList.map_entry stim
               (\<lambda>final. map (\<lambda>c. (final ! c)
                                  [trial_number := mean_over_trials
                                     (length (filter id z_window_values)) (z_trials ! c)])
                            [0 ..< length final])
               final_z_scores)))"

definition z_stim_step :: "'w helpers \<Rightarrow> (string \<times> string) list \<Rightarrow> real list
    \<Rightarrow> real list list \<Rightarrow> real list list
    \<Rightarrow> nat \<times> string \<times> stim_psth
    \<Rightarrow> session \<times> (string \<times> real list list list) list
    \<Rightarrow> py_error option \<times> session \<times> (string \<times> real list list list) list" where
  "z_stim_step h stim_dict time_bin_size bsl_windows z_windows =
     (\<lambda>(idx, stim, entry) (self, final_z_scores).
        try_step (trial_groups_of self stim_dict stim) (self, final_z_scores) (\<lambda>trials.
        try_step (index_list ''time_bin_size'' time_bin_size idx) (self, final_z_scores)
          (\<lambda>time_bin_current.
        try_step (bin_width (sp_bins entry)) (self, final_z_scores) (\<lambda>bin_size.
        try_step (index_list ''bsl_windows'' bsl_windows idx) (self, final_z_scores)
          (\<lambda>bsl_current.
        try_step (index_list ''z_windows'' z_windows idx) (self, final_z_scores)
          (\<lambda>z_window_current.
          (let trial_set = np_unique trials;
               self1 = self\<lparr>self_z_windows :=
                              dict_set stim z_window_current (self_z_windows self)\<rparr>;
               n_bins = int (length (sp_bins entry));
               new_bin_number = trunc ((real_of_int n_bins * bin_size) / time_bin_current);
               (psth, bins) = rebin h (sp_psth entry) (sp_bins entry) n_bins new_bin_number;
               bsl_values = mask_between bins (bsl_current ! 0) (bsl_current ! 1);
               z_window_values =
                 mask_between bins (z_window_current ! 0) (z_window_current ! 1);
               bsl_psth = map (map (select bsl_values)) psth;
               z_psth = map (map (select z_window_values)) psth;
               n_z = length (filter id z_window_values);
               self2 = self1\<lparr>self_raw_zscores :=
                               dict_set stim (map (map (\<lambda>row. replicate n_z 0)) z_psth)
                                 (self_raw_zscores self1)\<rparr>;
               final1 = AList.update stim
                          (replicate (length z_psth)
                             (replicate (length trial_set) (replicate n_z 0)))
                          final_z_scores
           in case for_loop
                     (z_trial_step h stim trials z_psth bsl_psth bsl_current z_window_values
                        time_bin_current)
                     (enumerate 0 trial_set) (self2, final1) of
                (Some e, st) \<Rightarrow> (Some e, st)
              | (None, (self3, final3)) \<Rightarrow>
                  (None,
                   self3\<lparr>self_z_bins :=
                           dict_set stim (select z_window_values bins) (self_z_bins self3)\<rparr>,
                   final3))))))))"

definition z_score_data :: "'w helpers \<Rightarrow> session \<Rightarrow> scalar_or_list \<Rightarrow> 'w \<Rightarrow> 'w
    \<Rightarrow> py_error option \<times> session" where
  "z_score_data h self time_bin_ms bsl_window z_window =
     (case self_psths self of
        None \<Rightarrow> (Some (Exception ''Run get_raw_psth before running z_score_data''), self)
      | Some psths \<Rightarrow>
          (case self_NUM_STIM self of
             None \<Rightarrow> (Some (AttributeError ''NUM_STIM''), self)
           | Some NUM_STIM \<Rightarrow>
               try_step (resolve_time_bins time_bin_ms NUM_STIM) self (\<lambda>time_bin_size.
               try_step (verify_window_format h bsl_window NUM_STIM) self (\<lambda>bsl_windows.
               try_step (verify_window_format h z_window NUM_STIM) self (\<lambda>z_windows.
                 (let self1 = self\<lparr>self_z_windows := Some [], self_z_bins := Some [],
                                    self_raw_zscores := Some []\<rparr>
                  in case for_loop
                            (z_stim_step h (get_key_for_stim self) time_bin_size
                               bsl_windows z_windows)
                            (enumerate 0 psths) (self1, []) of
                       (Some e, self', final_z_scores) \<Rightarrow> (Some e, self')
                     | (None, self', final_z_scores) \<Rightarrow>
                         (None, self'\<lparr>self_z_scores := Some final_z_scores\<rparr>)))))))"

subsection \<open>latencies, the whole method\<close>

text \<open>\<open>np.shape(psth)[2]\<close>, the number of bins of the tensor.\<close>

definition psth_n_bins :: "psth3 \<Rightarrow> nat" where
  "psth_n_bins psth = (case psth of (row # _) # _ \<Rightarrow> length row | _ \<Rightarrow> 0)"

text \<open>
  The body of \<open>for idx, stim in enumerate(self.psths.keys())\<close>: the re-binning, then the
  computation of \<open>latencies_stim\<close>, whose arrays are the entry \<open>self.latency[stim]\<close> and are
  filled in place. (The inner loop over the clusters reuses the name \<open>idx\<close>; the outer
  loop reads \<open>idx\<close> before that, and \<open>enumerate\<close> sets it again.) \<open>rnd\<close> is the array drawn
  by \<open>np.random.rand\<close> for this stimulus.
\<close>

definition latencies_stim_step :: "'w helpers \<Rightarrow> (nat \<Rightarrow> nat \<Rightarrow> nat \<Rightarrow> nat \<Rightarrow> real)
    \<Rightarrow> (string \<times> string) list \<Rightarrow> real list list \<Rightarrow> real \<Rightarrow> nat
    \<Rightarrow> nat \<times> string \<times> stim_psth \<Rightarrow> session \<Rightarrow> py_error option \<times> session" where
  "latencies_stim_step h rnd stim_dict bsl_windows time_bin_ms num_shuffles =
     (\<lambda>(idx, stim, entry) self.
        try_step (trial_groups_of self stim_dict stim) self (\<lambda>trials.
        try_step (index_list ''bsl_windows'' bsl_windows idx) self (\<lambda>current_bsl.
        try_step (bin_width (sp_bins entry)) self (\<lambda>time_bin_size.
          (let time_bin_seconds = time_bin_ms / 1000;
               n_bins = int (psth_n_bins (sp_psth entry));
               new_bin_number = trunc ((real_of_int n_bins * time_bin_size) / time_bin_seconds);
               (psth, bins) = rebin h (sp_psth entry) (sp_bins entry) n_bins new_bin_number
           in try_step (bin_width bins) self (\<lambda>final_time_bin_size.
                case latencies_stim (rnd idx) psth bins trials current_bsl num_shuffles of
                  (e, out) \<Rightarrow>
                    (e, self\<lparr>self_latency := dict_set stim out (self_latency self)\<rparr>)))))))"

definition latencies :: "'w helpers \<Rightarrow> (nat \<Rightarrow> nat \<Rightarrow> nat \<Rightarrow> nat \<Rightarrow> real) \<Rightarrow> session \<Rightarrow> 'w \<Rightarrow> real
    \<Rightarrow> nat \<Rightarrow> py_error option \<times> session" where
  "latencies h rnd self bsl_window time_bin_ms num_shuffles =
     (case self_NUM_STIM self of
        None \<Rightarrow> (Some (AttributeError ''NUM_STIM''), self)
      | Some NUM_STIM \<Rightarrow>
          (let self1 = self\<lparr>self_latency_time_bin := Some time_bin_ms\<rparr>
           in try_step (verify_window_format h bsl_window NUM_STIM) self1 (\<lambda>bsl_windows.
                case self_psths self1 of
                  None \<Rightarrow> (Some (AttributeError ''psths''), self1)
                | Some psths \<Rightarrow>
                    for_loop
                      (latencies_stim_step h rnd (get_key_for_stim self1) bsl_windows
                         time_bin_ms num_shuffles)
                      (enumerate 0 psths) (self1\<lparr>self_latency := Some []\<rparr>))))"

section \<open>Predicates and worked examples for the properties\<close>

subsection \<open>Predicates on the result arrays\<close>

text \<open>
  The shape of the two result arrays; a cell that holds the value the code computes for
  it; a cell left untouched by a step; and the latency function chosen by the baseline
  rate, as the branches of \<open>cluster_step\<close> use it.
\<close>

definition shape :: "nat \<Rightarrow> nat \<Rightarrow> nat \<Rightarrow> latency_entry \<Rightarrow> bool" where
  "shape C T S out \<longleftrightarrow>
     length (lat_latency out) = C \<and> (\<forall>c<C. length (lat_latency out ! c) = T) \<and>
     length (lat_shuffled out) = C \<and>
     (\<forall>c<C. length (lat_shuffled out ! c) = T \<and> (\<forall>p<T. length (lat_shuffled out ! c ! p) = S))"

definition cell_ok :: "(counts \<Rightarrow> npfloat list) \<Rightarrow> counts \<Rightarrow> real list \<Rightarrow> (nat \<Rightarrow> real)
    \<Rightarrow> bool list \<Rightarrow> nat \<Rightarrow> latency_entry \<Rightarrow> nat \<Rightarrow> nat \<Rightarrow> bool" where
  "cell_ok f rows bins refs msk S out c p \<longleftrightarrow>
     lat_latency out ! c ! p =
       Some (fmul 1000 (f (map (select (mask_ge bins 0)) rows) ! rank msk p)) \<and>
     (\<forall>s<S. lat_shuffled out ! c ! p ! s =
        Some (fmul 1000 (f (map (select (mask_ge bins (refs s))) rows) ! rank msk p)))"

definition latency_rule :: "real \<Rightarrow> real \<Rightarrow> counts \<Rightarrow> npfloat list" where
  "latency_rule bsl_fr time_bin_size =
     (if bsl_fr > 2 then (\<lambda>d. latency_core_stats bsl_fr d time_bin_size)
      else (\<lambda>d. latency_median d time_bin_size))"

definition same_cell :: "nat \<Rightarrow> latency_entry \<Rightarrow> latency_entry \<Rightarrow> nat \<Rightarrow> nat \<Rightarrow> bool" where
  "same_cell S t t' c p \<longleftrightarrow>
     lat_latency t' ! c ! p = lat_latency t ! c ! p \<and>
     (\<forall>s<S. lat_shuffled t' ! c ! p ! s = lat_shuffled t ! c ! p ! s)"

definition keeps_length :: "(counts \<Rightarrow> npfloat list) \<Rightarrow> bool" where
  "keeps_length f \<longleftrightarrow> (\<forall>d. length (f d) = length d)"

subsection \<open>A worked example\<close>

text \<open>
  Two clusters, three trials in the trial groups 1, 2, 1, five bins of 50 ms centred at
  -75, -25, 25, 75 and 125 ms, the baseline window [-100 ms, 0], two shuffles. Cluster 0
  has one baseline spike in three trials (10/3 Hz) and seven spikes in the first bin after
  onset of the last trial; cluster 1 is silent in the baseline. The first random number of
  every cell is 0.9 (reference -10 ms, the bins from onset on); the second is 0.5 for
  cluster 0 (reference -50 ms, one more bin) and 0.1 for cluster 1 (reference -90 ms, all
  bins).
\<close>

definition ex_psth :: psth3 where
  "ex_psth = [[[1, 0, 0, 0, 0], [0, 0, 0, 0, 0], [0, 0, 7, 0, 0]],
              [[0, 0, 0, 1, 0], [0, 0, 0, 0, 0], [0, 0, 1, 0, 0]]]"

definition ex_bins :: "real list" where
  "ex_bins = [- 3 / 40, - 1 / 40, 1 / 40, 3 / 40, 5 / 40]"

definition ex_trials :: "int list" where
  "ex_trials = [1, 2, 1]"

definition ex_bsl_window :: "real list" where
  "ex_bsl_window = [- 1 / 10, 0]"

definition ex_rnd :: "nat \<Rightarrow> nat \<Rightarrow> nat \<Rightarrow> real" where
  "ex_rnd c t s = (if s = 0 then 9 / 10 else if c = 0 then 1 / 2 else 1 / 10)"

subsection \<open>A worked session\<close>

text \<open>
  One channel with the stimulus \<open>a\<close> and one event at sample 100, one cluster (id 7) with
  spikes at the samples 97, 98, 101 and 102, a sampling rate of 1 kHz. With the window
  [-4 ms, 4 ms] and bins of 4 ms the two bins hold two spikes each, which is the array the
  binning helper returns here. The other helpers leave their argument as it is.
\<close>

definition ex_helpers :: "real list helpers" where
  "ex_helpers =
     \<lparr>verify_window_format = (\<lambda>w n. Inr (replicate n w)),
      spike_times_to_bins = (\<lambda>spikes events time_bin_size window_start window_end.
                               ([[2, 2]], [- 2, 2])),
      convert_to_new_bins = (\<lambda>psth n. psth),
      convert_bins = (\<lambda>bins n. bins),
      gaussian_smoothing = (\<lambda>x width sm_std. x),
      z_score_values = (\<lambda>z mean_fr std_fr. z)\<rparr>"

definition ex_session0 :: session where
  "ex_session0 =
     \<lparr>self_events = [(''ch1'', \<lparr>ev_events = [100], ev_stim = ''a'', ev_trial_groups = [1]\<rparr>)],
      self_raw_spike_times = [97, 98, 101, 102],
      self_spike_clusters = [7, 7, 7, 7],
      self_cluster_ids = [7],
      self_sampling_rate = 1000,
      self_NUM_STIM = None,
      self_psths = None,
      self_fr_windows = None,
      self_fr_bins = None,
      self_raw_firing_rate = None,
      self_mean_firing_rate = None,
      self_z_windows = None,
      self_z_bins = None,
      self_raw_zscores = None,
      self_z_scores = None,
      self_latency_time_bin = None,
      self_latency = None\<rparr>"

definition ex_window :: "real list" where
  "ex_window = [- 4 / 1000, 4 / 1000]"

definition ex_stim_psth :: stim_psth where
  "ex_stim_psth = \<lparr>sp_psth = [[[2, 2]]], sp_bins = [- 2 / 1000, 2 / 1000]\<rparr>"

definition ex_session :: session where
  "ex_session = ex_session0\<lparr>self_NUM_STIM := Some 1, self_psths := Some [(''a'', ex_stim_psth)]\<rparr>"

section \<open>Properties of the latency functions\<close>

lemma lookup_table_fact: "k \<le> 20 \<Longrightarrow> LOOKUP_TABLE ! k = fact k"
proof -
  assume "k \<le> 20"
  then have "k \<in> set [0 ..< 21]" by simp
  then show ?thesis
    unfolding LOOKUP_TABLE_def
    by (simp add: upt_rec fact_numeral numeral_eq_Suc del: upt.simps) (elim disjE; simp add: fact_numeral)
qed

lemma np_min_Min:
  assumes "xs \<noteq> []"
  shows "np_min xs = Min (set xs)"
proof (cases xs)
  case Nil
  with assms show ?thesis by simp
next
  case (Cons a list)
  then show ?thesis using Min.set_eq_fold[of a list] by (simp add: np_min_def)
qed

lemma set_np_nonzero: "set (np_nonzero row) = {i. i < length row \<and> row ! i \<noteq> 0}"
  by (auto simp: np_nonzero_def)

lemma np_min_first:
  assumes "i < length row" "row ! i \<noteq> 0" "\<forall>j<i. row ! j = 0"
  shows "np_nonzero row \<noteq> []" "np_min (np_nonzero row) = i"
proof -
  have mem: "i \<in> set (np_nonzero row)" using assms by (simp add: set_np_nonzero)
  then show ne: "np_nonzero row \<noteq> []" by auto
  have "Min (set (np_nonzero row)) = i"
  proof (rule Min_eqI)
    show "finite (set (np_nonzero row))" by simp
    show "i \<in> set (np_nonzero row)" by (rule mem)
    fix y assume "y \<in> set (np_nonzero row)"
    then have "row ! y \<noteq> 0" by (simp add: set_np_nonzero)
    with assms(3) show "i \<le> y" by (meson not_le)
  qed
  with ne show "np_min (np_nonzero row) = i" by (simp add: np_min_Min)
qed

lemma np_nonzero_empty: "(\<forall>j<length row. row ! j = 0) \<Longrightarrow> np_nonzero row = []"
  by (simp add: np_nonzero_def filter_empty_conv)

lemma latency_median_trial_first:
  assumes "i < length row" "row ! i \<noteq> 0" "\<forall>j<i. row ! j = 0"
  shows "latency_median_trial row tbs = Fl (real (i + 1) * tbs)"
  using np_min_first[OF assms] by (simp add: latency_median_trial_def Let_def)

lemma latency_median_trial_none:
  "(\<forall>j<length row. row ! j = 0) \<Longrightarrow> latency_median_trial row tbs = NaN"
  by (simp add: latency_median_trial_def np_nonzero_empty)

lemma latency_median_nth:
  "trial < length firing_counts \<Longrightarrow>
   latency_median firing_counts tbs ! trial = latency_median_trial (firing_counts ! trial) tbs"
  by (simp add: latency_median_def)

lemma first_nonzero_exists:
  assumes "\<exists>j<length row. row ! j \<noteq> (0::int)"
  shows "\<exists>i<length row. row ! i \<noteq> 0 \<and> (\<forall>j<i. row ! j = 0)"
proof -
  define i where "i = (LEAST j. j < length row \<and> row ! j \<noteq> 0)"
  from assms have a: "i < length row \<and> row ! i \<noteq> 0"
    unfolding i_def by (rule LeastI_ex)
  have "\<forall>j<i. row ! j = 0"
  proof (intro allI impI)
    fix j assume "j < i"
    then have "\<not> (j < length row \<and> row ! j \<noteq> 0)"
      unfolding i_def by (rule not_less_Least)
    with \<open>j < i\<close> a show "row ! j = 0" by simp
  qed
  with a show ?thesis by blast
qed

text \<open>
  Claim C8. For every non-negative integer \<open>k\<close>, \<open>factorial(k)\<close> is the entry \<open>k\<close> of the
  lookup table when \<open>k \<le> 20\<close>, and that entry is the exact integer \<open>k!\<close>; for larger \<open>k\<close>
  it is \<open>math.gamma(k + 1)\<close>.
\<close>

theorem factorial_lookup_or_gamma:
  "(k \<le> 20 \<longrightarrow> factorial k = IntV (LOOKUP_TABLE ! k) \<and> LOOKUP_TABLE ! k = fact k) \<and>
   (20 < k \<longrightarrow> factorial k = FloatV (math_gamma (k + 1)))"
  by (simp add: factorial_def lookup_table_fact)

theorem factorial_lookup_or_gamma_witness:
  "(5::nat) \<le> 20 \<and> factorial 5 = IntV 120 \<and>
   (20::nat) < 21 \<and> factorial 21 = FloatV 51090942171709440000"
  using factorial_lookup_or_gamma[of 5] factorial_lookup_or_gamma[of 21]
  by (simp add: fact_numeral math_gamma_def)

text \<open>
  Claim C2. For every trial row of the input to \<open>latency_median\<close>, the returned latency
  is \<open>(i + 1) * time_bin_size\<close> for the index \<open>i\<close> of the first non-zero bin, and NaN when
  the row has no non-zero bin. With the first spike at bin index 3 and a bin of 10 ms
  (0.01 s) the value is 0.04 s, that is 40 ms.
\<close>

theorem latency_median_first_nonzero_bin:
  "trial < length firing_counts \<Longrightarrow>
   length (latency_median firing_counts tbs) = length firing_counts \<and>
   ((\<forall>j<length (firing_counts ! trial). firing_counts ! trial ! j = 0) \<longrightarrow>
      latency_median firing_counts tbs ! trial = NaN) \<and>
   (i < length (firing_counts ! trial) \<and> firing_counts ! trial ! i \<noteq> 0 \<and>
    (\<forall>j<i. firing_counts ! trial ! j = 0) \<longrightarrow>
      latency_median firing_counts tbs ! trial = Fl (real (i + 1) * tbs))"
proof -
  assume t: "trial < length firing_counts"
  have "length (latency_median firing_counts tbs) = length firing_counts"
    by (simp add: latency_median_def)
  moreover have "(\<forall>j<length (firing_counts ! trial). firing_counts ! trial ! j = 0) \<longrightarrow>
      latency_median firing_counts tbs ! trial = NaN"
    using t by (simp add: latency_median_nth latency_median_trial_none)
  moreover have "i < length (firing_counts ! trial) \<and> firing_counts ! trial ! i \<noteq> 0 \<and>
    (\<forall>j<i. firing_counts ! trial ! j = 0) \<longrightarrow>
      latency_median firing_counts tbs ! trial = Fl (real (i + 1) * tbs)"
    using t latency_median_trial_first[of i "firing_counts ! trial" tbs]
    by (simp add: latency_median_nth)
  ultimately show ?thesis by blast
qed

theorem latency_median_first_nonzero_bin_witness:
  "latency_median [[0, 0, 0, 2, 0, 1], [0, 0, 0]] (1 / 100) ! 0 = Fl (4 / 100) \<and>
   latency_median [[0, 0, 0, 2, 0, 1], [0, 0, 0]] (1 / 100) ! 1 = NaN"
proof -
  have z3: "\<forall>j<3. [0, 0, 0, 2, 0, 1 :: int] ! j = 0"
    by (simp add: numeral_3_eq_3 All_less_Suc)
  have z0: "\<forall>j<length ([[0, 0, 0, 2, 0, 1], [0, 0, 0 :: int]] ! 1).
      [[0, 0, 0, 2, 0, 1], [0, 0, 0 :: int]] ! 1 ! j = 0"
    by (simp add: numeral_3_eq_3 All_less_Suc)
  have a: "latency_median [[0, 0, 0, 2, 0, 1], [0, 0, 0]] (1 / 100) ! 0 = Fl (real (3 + 1) * (1 / 100))"
    using latency_median_first_nonzero_bin[of 0 "[[0, 0, 0, 2, 0, 1], [0, 0, 0]]" "1 / 100" 3] z3
    by simp
  have b: "latency_median [[0, 0, 0, 2, 0, 1], [0, 0, 0]] (1 / 100) ! 1 = NaN"
    using latency_median_first_nonzero_bin[of 1 "[[0, 0, 0, 2, 0, 1], [0, 0, 0]]" "1 / 100" 0] z0
    by simp
  from a b show ?thesis by simp
qed

text \<open>
  Claim C10. For every trial with at least one spike in the scanned window and a positive
  bin width, \<open>latency_median\<close> returns \<open>(i + 1) * time_bin_size\<close> for the first non-zero bin
  \<open>i\<close>; this is at least one bin width and never 0, and a spike in the very first bin
  gives exactly one bin width.
\<close>

theorem latency_median_at_least_one_bin:
  assumes "trial < length firing_counts"
    and "0 < tbs"
    and "\<exists>j<length (firing_counts ! trial). firing_counts ! trial ! j \<noteq> 0"
  shows "(\<exists>i<length (firing_counts ! trial).
            firing_counts ! trial ! i \<noteq> 0 \<and> (\<forall>j<i. firing_counts ! trial ! j = 0) \<and>
            latency_median firing_counts tbs ! trial = Fl (real (i + 1) * tbs) \<and>
            tbs \<le> real (i + 1) * tbs \<and> real (i + 1) * tbs \<noteq> 0) \<and>
         (firing_counts ! trial ! 0 \<noteq> 0 \<longrightarrow> latency_median firing_counts tbs ! trial = Fl tbs)"
proof
  from first_nonzero_exists[OF assms(3)] obtain i where
    i: "i < length (firing_counts ! trial)" "firing_counts ! trial ! i \<noteq> 0"
       "\<forall>j<i. firing_counts ! trial ! j = 0" by blast
  have v: "latency_median firing_counts tbs ! trial = Fl (real (i + 1) * tbs)"
    using assms(1) i by (simp add: latency_median_nth latency_median_trial_first)
  have "1 * tbs \<le> real (i + 1) * tbs"
    using assms(2) by (intro mult_right_mono) simp_all
  then have ge: "tbs \<le> real (i + 1) * tbs" by simp
  with assms(2) have "real (i + 1) * tbs \<noteq> 0" by linarith
  with i v ge show "\<exists>i<length (firing_counts ! trial).
            firing_counts ! trial ! i \<noteq> 0 \<and> (\<forall>j<i. firing_counts ! trial ! j = 0) \<and>
            latency_median firing_counts tbs ! trial = Fl (real (i + 1) * tbs) \<and>
            tbs \<le> real (i + 1) * tbs \<and> real (i + 1) * tbs \<noteq> 0" by blast
next
  show "firing_counts ! trial ! 0 \<noteq> 0 \<longrightarrow> latency_median firing_counts tbs ! trial = Fl tbs"
  proof
    assume nz: "firing_counts ! trial ! 0 \<noteq> 0"
    from assms(3) have "0 < length (firing_counts ! trial)" by auto
    with nz have "latency_median_trial (firing_counts ! trial) tbs = Fl (real (0 + 1) * tbs)"
      by (intro latency_median_trial_first) simp_all
    with assms(1) show "latency_median firing_counts tbs ! trial = Fl tbs"
      by (simp add: latency_median_nth)
  qed
qed

theorem latency_median_at_least_one_bin_witness:
  "latency_median [[3, 0, 1]] (1 / 20) ! 0 = Fl (1 / 20) \<and>
   (\<exists>i<3. latency_median [[3, 0, 1]] (1 / 20) ! 0 = Fl (real (i + 1) * (1 / 20)) \<and>
      (1 / 20 :: real) \<le> real (i + 1) * (1 / 20))"
proof -
  have h1: "(0::nat) < length [[3, 0, 1 :: int]]" by simp
  have h2: "(0::real) < 1 / 20" by simp
  have h3: "\<exists>j<length ([[3, 0, 1 :: int]] ! 0). [[3, 0, 1 :: int]] ! 0 ! j \<noteq> 0"
    by (rule exI[of _ 0]) simp
  from latency_median_at_least_one_bin[OF h1 h2 h3] show ?thesis
    by simp
qed

lemma trial_loop_last:
  "fst (trial_loop b d t xs st) = (if xs = [] then fst st else last xs)"
  by (induction xs arbitrary: st) simp_all

lemma scan_bins_overwrites:
  "ns \<noteq> [] \<Longrightarrow> scan_bins b row t ns cur = scan_bins b row t ns 0"
  by (cases ns) (simp_all add: Let_def)

lemma trial_loop_scan:
  "xs \<noteq> [] \<Longrightarrow> [0 ..< n_cols d - 1] \<noteq> [] \<Longrightarrow>
   snd (trial_loop b d t xs st) = scan_bins b (d ! last xs) t [0 ..< n_cols d - 1] 0"
proof (induction xs arbitrary: st)
  case Nil
  then show ?case by simp
next
  case (Cons x xs)
  show ?case
  proof (cases "xs = []")
    case True
    then show ?thesis using scan_bins_overwrites[OF Cons.prems(2)] by simp
  next
    case False
    with Cons.IH[OF False Cons.prems(2)] show ?thesis by simp
  qed
qed

text \<open>The result is the array of zeros with one cell written, that of the last trial.\<close>

lemma latency_core_stats_last_row:
  assumes "d \<noteq> []" and "2 \<le> n_cols d"
  shows "latency_core_stats b d t =
     (replicate (length d) (Fl 0))
       [length d - 1 :=
          (if int (scan_bins b (last d) t [0 ..< n_cols d - 1] 0) = int (n_cols d) - 2 then NaN
           else Fl (real (scan_bins b (last d) t [0 ..< n_cols d - 1] 0 + 1) * t))]"
proof -
  have xs: "[0 ..< length d] \<noteq> []" using assms(1) by simp
  have cols: "[0 ..< n_cols d - 1] \<noteq> []" using assms(2) by simp
  have l: "last [0 ..< length d] = length d - 1" using xs by (cases "length d") simp_all
  have dl: "d ! (length d - Suc 0) = last d" using assms(1) by (simp add: last_conv_nth)
  obtain tr nb where st: "trial_loop b d t [0 ..< length d] (0, 0) = (tr, nb)"
    by (cases "trial_loop b d t [0 ..< length d] (0, 0)")
  have "tr = length d - 1"
    using trial_loop_last[of b d t "[0 ..< length d]" "(0, 0)"] xs l by (simp add: st)
  moreover have "nb = scan_bins b (last d) t [0 ..< n_cols d - 1] 0"
    using trial_loop_scan[OF xs cols, of b t "(0, 0)"] by (simp add: st l dl)
  ultimately show ?thesis
    by (simp add: latency_core_stats_def Let_def st)
qed

lemma length_latency_core_stats: "length (latency_core_stats b d t) = length d"
  by (simp add: latency_core_stats_def Let_def split: prod.splits)

lemma latency_core_stats_others_zero:
  assumes "i + 1 < length d"
  shows "latency_core_stats b d t ! i = Fl 0"
proof -
  from assms have xs: "[0 ..< length d] \<noteq> []" by auto
  then have l: "last [0 ..< length d] = length d - 1" by (cases "length d") simp_all
  obtain tr nb where st: "trial_loop b d t [0 ..< length d] (0, 0) = (tr, nb)"
    by (cases "trial_loop b d t [0 ..< length d] (0, 0)")
  have "tr = length d - 1"
    using trial_loop_last[of b d t "[0 ..< length d]" "(0, 0)"] xs l by (simp add: st)
  with assms show ?thesis
    by (simp add: latency_core_stats_def Let_def st)
qed

subsection \<open>The Poisson tail\<close>

lemma to_float_factorial: "to_float (factorial k) = fact k"
  by (simp add: factorial_def lookup_table_fact math_gamma_def)

lemma poisson_pdf_fact: "poisson_pdf k mu = mu ^ k / fact k * exp (- mu)"
  by (simp add: poisson_pdf_def to_float_factorial)

lemma fold_add_sum: "fold (\<lambda>i v. v + f i) [0 ..< n] (a::real) = a + (\<Sum>i<n. f i)"
  by (induction n) simp_all

lemma poisson_cdf_sum: "poisson_cdf k mu = (\<Sum>i<nat (k + 1). mu ^ i / fact i) * exp (- mu)"
  by (simp add: poisson_cdf_def fold_add_sum poisson_pdf_fact sum_distrib_right)

text \<open>
  Seven spikes where at most half a spike is expected: the probability of that many
  under the baseline rate is below the threshold of \<open>latency_core_stats\<close>.
\<close>

lemma poisson_tail_seven:
  assumes "0 \<le> mu" and "mu \<le> 1 / 2"
  shows "1 - poisson_cdf 6 mu \<le> 10 / 10 ^ 6"
proof -
  define T where "T = (\<Sum>i<7. mu ^ i / fact i)"
  from Maclaurin_exp_le[of mu 7] obtain u where
    u: "\<bar>u\<bar> \<le> \<bar>mu\<bar>" and e: "exp mu = T + exp u / fact 7 * mu ^ 7"
    unfolding T_def by blast
  define R where "R = exp u / fact 7 * mu ^ 7"
  have "u \<le> 1" using u assms by linarith
  then have "exp u \<le> exp 1" by simp
  also have "\<dots> \<le> 3" by (rule exp_le)
  finally have eu: "exp u \<le> 3" .
  have p7: "mu ^ 7 \<le> (1 / 2) ^ 7" using assms by (intro power_mono) simp_all
  have p0: "0 \<le> mu ^ 7" using assms by simp
  have "exp u * mu ^ 7 \<le> 3 * (1 / 2) ^ 7"
    using eu p7 p0 by (intro mult_mono) simp_all
  also have "\<dots> = 3 / 128" by (simp add: power_one_over)
  finally have X: "exp u * mu ^ 7 \<le> 3 / 128" .
  have "R = exp u * mu ^ 7 / 5040" by (simp add: R_def fact_numeral)
  with X have Rle: "R \<le> 10 / 10 ^ 6" by simp
  have R0: "0 \<le> R" using p0 by (simp add: R_def)
  have "(\<Sum>i<7. mu ^ i / fact i) = 1 + (\<Sum>i\<in>{1..<7}. mu ^ i / fact i)"
    by (simp add: lessThan_atLeast0 sum.atLeast_Suc_lessThan)
  moreover have "0 \<le> (\<Sum>i\<in>{1..<7}. mu ^ i / fact i)"
    using assms by (intro sum_nonneg) simp
  ultimately have T1: "1 \<le> T" by (simp add: T_def)
  have em: "exp (- mu) = 1 / (T + R)" using e by (simp add: exp_minus R_def inverse_eq_divide)
  have pos: "0 < T + R" using T1 R0 by linarith
  have "1 - T * exp (- mu) = R / (T + R)"
    using pos by (simp add: em field_simps)
  also have "\<dots> \<le> R / 1"
    using R0 T1 by (intro divide_left_mono) simp_all
  finally have "1 - T * exp (- mu) \<le> 10 / 10 ^ 6" using Rle by simp
  then show ?thesis by (simp add: poisson_cdf_sum T_def)
qed

lemma poisson_cdf_no_spike: "poisson_cdf (- 1) mu = 0"
  by (simp add: poisson_cdf_def)

lemma scan_bins_crosses:
  "1 - poisson_cdf (sum_list (take (n + 1) row) - 1) (b * (real (n + 1) * t)) \<le> 10 / 10 ^ 6
   \<Longrightarrow> scan_bins b row t (n # rest) cur = n"
  by (simp add: Let_def)

lemma scan_bins_silent:
  "sum_list (take (n + 1) row) = 0 \<Longrightarrow> scan_bins b row t (n # rest) cur = scan_bins b row t rest n"
  by (simp add: Let_def poisson_cdf_def)

text \<open>
  Claim C1 asks for a latency per trial row of \<open>latency_core_stats\<close>. The assignment to
  \<open>latency[trial]\<close> stands after both loops, so only the last row is written: for two
  silent trials of three bins the first trial keeps the initial 0.0 where the claim asks
  for NaN.
\<close>

theorem latency_core_stats_only_last_trial:
  "latency_core_stats 3 [[0, 0, 0], [0, 0, 0]] (5 / 100) = [Fl 0, NaN]"
  by (simp add: latency_core_stats_def n_cols_def upt_rec poisson_cdf_def Let_def)

section \<open>Properties of latencies\<close>

subsection \<open>Masks\<close>

lemma rank_Suc: "rank (m # ms) (Suc p) = (if m then 1 else 0) + rank ms p"
  by (simp add: rank_def)

lemma rank_0: "rank msk 0 = 0"
  by (simp add: rank_def)

lemma select_Cons: "select (m # ms) (x # xs) = (if m then x # select ms xs else select ms xs)"
  by (simp add: select_def)

lemma length_select: "length msk = length xs \<Longrightarrow> length (select msk xs) = length (filter id msk)"
  by (induction msk xs rule: list_induct2) (simp_all add: select_Cons, simp add: select_def)

lemma rank_less: "p < length msk \<Longrightarrow> msk ! p \<Longrightarrow> rank msk p < length (filter id msk)"
proof (induction msk arbitrary: p)
  case Nil
  then show ?case by simp
next
  case (Cons m ms)
  then show ?case by (cases p) (auto simp: rank_Suc rank_0)
qed

lemma select_nth_rank:
  "length msk = length xs \<Longrightarrow> p < length xs \<Longrightarrow> msk ! p \<Longrightarrow> select msk xs ! rank msk p = xs ! p"
proof (induction msk xs arbitrary: p rule: list_induct2)
  case Nil
  then show ?case by simp
next
  case (Cons m ms x xs)
  then show ?case by (cases p) (auto simp: rank_Suc rank_0 select_Cons)
qed

subsection \<open>Loops\<close>

lemma fold_induct_aux:
  assumes "xs = pre @ ys" "P pre t"
    and step: "\<And>pre x post t. xs = pre @ x # post \<Longrightarrow> P pre t \<Longrightarrow> P (pre @ [x]) (body x t)"
  shows "P xs (fold body ys t)"
  using assms(1,2)
proof (induction ys arbitrary: pre t)
  case Nil
  then show ?case by simp
next
  case (Cons y ys)
  have "P (pre @ [y]) (body y t)" using step[OF Cons.prems(1) Cons.prems(2)] .
  moreover have "xs = (pre @ [y]) @ ys" using Cons.prems(1) by simp
  ultimately show ?case using Cons.IH by simp
qed

lemma fold_induct:
  assumes "P [] s"
    and "\<And>pre x post t. xs = pre @ x # post \<Longrightarrow> P pre t \<Longrightarrow> P (pre @ [x]) (body x t)"
  shows "P xs (fold body xs s)"
  using fold_induct_aux[of xs "[]" xs P s body] assms by simp

lemma same_cell_refl: "same_cell S t t c p"
  by (simp add: same_cell_def)

lemma same_cell_trans: "same_cell S t u c p \<Longrightarrow> same_cell S u v c p \<Longrightarrow> same_cell S t v c p"
  by (simp add: same_cell_def)

lemma cell_ok_same: "same_cell S t t' c p \<Longrightarrow> cell_ok f rows bins refs msk S t c p
    \<Longrightarrow> cell_ok f rows bins refs msk S t' c p"
  by (simp add: same_cell_def cell_ok_def)

subsection \<open>The two stores\<close>

lemma length_assign_masked: "length (assign_masked msk vals arr) = length arr"
  by (simp add: assign_masked_def)

lemma nth_assign_masked:
  "p < length arr \<Longrightarrow>
   assign_masked msk vals arr ! p = (if msk ! p then vals ! rank msk p else arr ! p)"
  by (simp add: assign_masked_def)

lemma nth_update_cases:
  "c < length xs \<Longrightarrow> xs[idx := v] ! c = (if c = idx then v else xs ! c)"
  by (cases "c = idx") simp_all

lemma shape_store_latency:
  "shape C T S out \<Longrightarrow> shape C T S (store_latency idx msk vals out)"
  by (simp add: shape_def store_latency_def length_assign_masked nth_update_cases)

lemma lat_shuffled_store_latency: "lat_shuffled (store_latency idx msk vals out) = lat_shuffled out"
  by (simp add: store_latency_def)

lemma lat_latency_store_latency:
  assumes "shape C T S out" "c < C" "p < T" "msk ! p \<longrightarrow> rank msk p < length vals"
  shows "lat_latency (store_latency idx msk vals out) ! c ! p =
     (if c = idx \<and> msk ! p then Some (fmul 1000 (vals ! rank msk p)) else lat_latency out ! c ! p)"
proof -
  from assms have l: "length (lat_latency out) = C" "length (lat_latency out ! c) = T"
    by (simp_all add: shape_def)
  show ?thesis
  proof (cases "c = idx")
    case True
    with l assms show ?thesis
      by (simp add: store_latency_def nth_assign_masked)
  next
    case False
    with l assms show ?thesis
      by (simp add: store_latency_def)
  qed
qed

lemma shape_store_shuffled:
  "shape C T S out \<Longrightarrow> shape C T S (store_shuffled idx msk shuffle vals out)"
  by (simp add: shape_def store_shuffled_def nth_update_cases)

lemma lat_latency_store_shuffled:
  "lat_latency (store_shuffled idx msk shuffle vals out) = lat_latency out"
  by (simp add: store_shuffled_def)

lemma lat_shuffled_store_shuffled:
  assumes "shape C T S out" "c < C" "p < T" "s < S"
  shows "lat_shuffled (store_shuffled idx msk shuffle vals out) ! c ! p ! s =
     (if c = idx \<and> msk ! p \<and> s = shuffle then Some (fmul 1000 (vals ! rank msk p))
      else lat_shuffled out ! c ! p ! s)"
proof -
  from assms have l: "length (lat_shuffled out) = C" "length (lat_shuffled out ! c) = T"
      "length (lat_shuffled out ! c ! p) = S"
    by (simp_all add: shape_def)
  show ?thesis
  proof (cases "c = idx")
    case True
    with l assms show ?thesis
      by (simp add: store_shuffled_def nth_list_update)
  next
    case False
    with l assms show ?thesis
      by (simp add: store_shuffled_def)
  qed
qed

subsection \<open>One cluster and one trial group\<close>

lemma keeps_length_rule: "keeps_length (latency_rule b t)"
  by (simp add: keeps_length_def latency_rule_def length_latency_core_stats latency_median_def)

lemma upt_split_fresh:
  assumes "[0 ..< n] = pre @ x # post"
  shows "x < n" "x \<notin> set pre"
proof -
  have "x \<in> set [0 ..< n]" unfolding assms by simp
  then show "x < n" by simp
  have "distinct (pre @ x # post)" using distinct_upt[of 0 n] unfolding assms .
  then show "x \<notin> set pre" by simp
qed

lemma shuffle_loop:
  assumes sh: "shape C T S t1"
    and run: "t' = fold (shuffle_step f rows bins refs idx msk) [0 ..< S] t1"
  shows "shape C T S t'"
    and "lat_latency t' = lat_latency t1"
    and "\<forall>c<C. \<forall>p<T. \<forall>s<S.
           lat_shuffled t' ! c ! p ! s =
             (if c = idx \<and> msk ! p
              then Some (fmul 1000 (f (map (select (mask_ge bins (refs s))) rows) ! rank msk p))
              else lat_shuffled t1 ! c ! p ! s)"
proof -
  define Q where "Q = (\<lambda>pre u. shape C T S u \<and> lat_latency u = lat_latency t1 \<and>
     (\<forall>c<C. \<forall>p<T. \<forall>s<S.
        lat_shuffled u ! c ! p ! s =
          (if c = idx \<and> msk ! p \<and> s \<in> set pre
           then Some (fmul 1000 (f (map (select (mask_ge bins (refs s))) rows) ! rank msk p))
           else lat_shuffled t1 ! c ! p ! s)))"
  have "Q [0 ..< S] t'"
    unfolding run
  proof (rule fold_induct)
    show "Q [] t1" using sh by (simp add: Q_def)
  next
    fix pre x post t
    assume split: "[0 ..< S] = pre @ x # post" and q: "Q pre t"
    define u where "u = shuffle_step f rows bins refs idx msk x t"
    have u: "u = store_shuffled idx msk x (f (map (select (mask_ge bins (refs x))) rows)) t"
      by (simp add: u_def shuffle_step_def)
    from q have sht: "shape C T S t" and lt: "lat_latency t = lat_latency t1"
      by (simp_all add: Q_def)
    have shu: "shape C T S u" unfolding u using sht by (rule shape_store_shuffled)
    have lu: "lat_latency u = lat_latency t1"
      unfolding u using lt by (simp add: lat_latency_store_shuffled)
    have cells: "lat_shuffled u ! c ! p ! s =
          (if c = idx \<and> msk ! p \<and> s \<in> set (pre @ [x])
           then Some (fmul 1000 (f (map (select (mask_ge bins (refs s))) rows) ! rank msk p))
           else lat_shuffled t1 ! c ! p ! s)"
      if cps: "c < C" "p < T" "s < S" for c p s
    proof -
      have upd: "lat_shuffled u ! c ! p ! s =
         (if c = idx \<and> msk ! p \<and> s = x
          then Some (fmul 1000 (f (map (select (mask_ge bins (refs x))) rows) ! rank msk p))
          else lat_shuffled t ! c ! p ! s)"
        unfolding u using sht cps by (rule lat_shuffled_store_shuffled)
      from q cps have old: "lat_shuffled t ! c ! p ! s =
          (if c = idx \<and> msk ! p \<and> s \<in> set pre
           then Some (fmul 1000 (f (map (select (mask_ge bins (refs s))) rows) ! rank msk p))
           else lat_shuffled t1 ! c ! p ! s)"
        by (simp add: Q_def)
      show ?thesis
      proof (cases "c = idx \<and> msk ! p \<and> s = x")
        case True
        with upd show ?thesis by simp
      next
        case False
        with upd have "lat_shuffled u ! c ! p ! s = lat_shuffled t ! c ! p ! s" by simp
        with old False show ?thesis by auto
      qed
    qed
    from shu lu cells show "Q (pre @ [x]) (shuffle_step f rows bins refs idx msk x t)"
      unfolding Q_def u_def by blast
  qed
  then show "shape C T S t'" and "lat_latency t' = lat_latency t1"
    and "\<forall>c<C. \<forall>p<T. \<forall>s<S.
           lat_shuffled t' ! c ! p ! s =
             (if c = idx \<and> msk ! p
              then Some (fmul 1000 (f (map (select (mask_ge bins (refs s))) rows) ! rank msk p))
              else lat_shuffled t1 ! c ! p ! s)"
    unfolding Q_def by simp_all
qed

lemma latency_and_shuffles_cells:
  assumes sh: "shape C T S t"
    and kl: "keeps_length f"
    and len: "length rows = length (filter id msk)" "length msk = T"
    and run: "t' = latency_and_shuffles f rows bins refs idx msk S t"
  shows "shape C T S t'"
    and "\<forall>c<C. \<forall>p<T. if c = idx \<and> msk ! p then cell_ok f rows bins refs msk S t' c p
                         else same_cell S t t' c p"
proof -
  define vals0 where "vals0 = f (map (select (mask_ge bins 0)) rows)"
  define t1 where "t1 = store_latency idx msk vals0 t"
  have t': "t' = fold (shuffle_step f rows bins refs idx msk) [0 ..< S] t1"
    by (simp add: run latency_and_shuffles_def t1_def vals0_def)
  have sh1: "shape C T S t1" unfolding t1_def using sh by (rule shape_store_latency)
  note sl = shuffle_loop[OF sh1 t']
  show "shape C T S t'" by (rule sl(1))
  from kl have lv: "length vals0 = length (filter id msk)"
    by (simp add: keeps_length_def len(1) vals0_def)
  show "\<forall>c<C. \<forall>p<T. if c = idx \<and> msk ! p then cell_ok f rows bins refs msk S t' c p
                         else same_cell S t t' c p"
  proof (intro allI impI)
    fix c p assume cp: "c < C" "p < T"
    have rk: "msk ! p \<longrightarrow> rank msk p < length vals0"
      using rank_less[of p msk] cp(2) len(2) lv by simp
    have L: "lat_latency t' ! c ! p =
       (if c = idx \<and> msk ! p then Some (fmul 1000 (vals0 ! rank msk p))
        else lat_latency t ! c ! p)"
      unfolding sl(2) t1_def using sh cp rk by (rule lat_latency_store_latency)
    have Sh: "\<forall>s<S. lat_shuffled t' ! c ! p ! s =
             (if c = idx \<and> msk ! p
              then Some (fmul 1000 (f (map (select (mask_ge bins (refs s))) rows) ! rank msk p))
              else lat_shuffled t ! c ! p ! s)"
      using sl(3)[unfolded t1_def lat_shuffled_store_latency] cp by blast
    show "if c = idx \<and> msk ! p then cell_ok f rows bins refs msk S t' c p
          else same_cell S t t' c p"
    proof (cases "c = idx \<and> msk ! p")
      case True
      with L Sh show ?thesis by (simp add: cell_ok_def vals0_def)
    next
      case False
      with L Sh show ?thesis by (auto simp: same_cell_def)
    qed
  qed
qed

subsection \<open>The loops over the clusters and the trial groups\<close>

lemma length_mask_eq: "length (mask_eq trials trial) = length trials"
  by (simp add: mask_eq_def)

lemma nth_mask_eq: "p < length trials \<Longrightarrow> mask_eq trials trial ! p \<longleftrightarrow> trials ! p = trial"
  by (simp add: mask_eq_def)

lemma cluster_step_rule:
  "cluster_step psth bins trials bsl_vals bsl_sh tbs S t_number trial idx out =
   latency_and_shuffles (latency_rule (bsl_vals ! idx) tbs)
     (select (mask_eq trials trial) (psth ! idx)) bins (bsl_sh idx t_number) idx
     (mask_eq trials trial) S out"
  by (simp add: cluster_step_def latency_rule_def Let_def)

lemma cluster_loop:
  assumes sh: "shape C T S t0"
    and wf: "\<forall>c<C. length (psth ! c) = length trials" "T = length trials"
    and run: "t' = fold (cluster_step psth bins trials bsl_vals bsl_sh tbs S t_number trial)
                   [0 ..< C] t0"
  shows "shape C T S t'"
    and "\<forall>c<C. \<forall>p<T.
           if trials ! p = trial
           then cell_ok (latency_rule (bsl_vals ! c) tbs) (select (mask_eq trials trial) (psth ! c))
                  bins (bsl_sh c t_number) (mask_eq trials trial) S t' c p
           else same_cell S t0 t' c p"
proof -
  define msk where "msk = mask_eq trials trial"
  define P where "P = (\<lambda>pre u. shape C T S u \<and>
     (\<forall>c<C. \<forall>p<T.
        if c \<in> set pre \<and> trials ! p = trial
        then cell_ok (latency_rule (bsl_vals ! c) tbs) (select msk (psth ! c))
               bins (bsl_sh c t_number) msk S u c p
        else same_cell S t0 u c p))"
  have "P [0 ..< C] t'"
    unfolding run
  proof (rule fold_induct)
    show "P [] t0" using sh by (simp add: P_def same_cell_refl)
  next
    fix pre x post t
    assume split: "[0 ..< C] = pre @ x # post" and inv: "P pre t"
    define u where "u = cluster_step psth bins trials bsl_vals bsl_sh tbs S t_number trial x t"
    from upt_split_fresh[OF split] have x: "x < C" "x \<notin> set pre" .
    from inv have sht: "shape C T S t" by (simp add: P_def)
    have lm: "length msk = T" by (simp add: msk_def length_mask_eq wf(2))
    have lr: "length (select msk (psth ! x)) = length (filter id msk)"
      using wf(1) x(1) by (intro length_select) (simp add: msk_def length_mask_eq)
    have u': "u = latency_and_shuffles (latency_rule (bsl_vals ! x) tbs)
        (select msk (psth ! x)) bins (bsl_sh x t_number) x msk S t"
      by (simp add: u_def cluster_step_rule msk_def)
    note ls = latency_and_shuffles_cells[OF sht keeps_length_rule lr lm u']
    have cells: "if c \<in> set (pre @ [x]) \<and> trials ! p = trial
        then cell_ok (latency_rule (bsl_vals ! c) tbs) (select msk (psth ! c))
               bins (bsl_sh c t_number) msk S u c p
        else same_cell S t0 u c p" if cp: "c < C" "p < T" for c p
    proof -
      have mp: "msk ! p \<longleftrightarrow> trials ! p = trial"
        using cp(2) wf(2) by (simp add: msk_def nth_mask_eq)
      from ls(2) cp mp have new: "if c = x \<and> trials ! p = trial
          then cell_ok (latency_rule (bsl_vals ! x) tbs) (select msk (psth ! x))
                 bins (bsl_sh x t_number) msk S u c p
          else same_cell S t u c p" by simp
      from inv cp have old: "if c \<in> set pre \<and> trials ! p = trial
        then cell_ok (latency_rule (bsl_vals ! c) tbs) (select msk (psth ! c))
               bins (bsl_sh c t_number) msk S t c p
        else same_cell S t0 t c p" by (simp add: P_def)
      show ?thesis
      proof (cases "c = x \<and> trials ! p = trial")
        case True
        with new show ?thesis by simp
      next
        case False
        with new have same: "same_cell S t u c p" by auto
        show ?thesis
        proof (cases "c \<in> set pre \<and> trials ! p = trial")
          case True
          with old have "cell_ok (latency_rule (bsl_vals ! c) tbs) (select msk (psth ! c))
               bins (bsl_sh c t_number) msk S t c p" by simp
          from cell_ok_same[OF same this] True show ?thesis by simp
        next
          case nin: False
          with old have "same_cell S t0 t c p" by auto
          from same_cell_trans[OF this same] nin False show ?thesis by auto
        qed
      qed
    qed
    from ls(1) cells
    show "P (pre @ [x]) (cluster_step psth bins trials bsl_vals bsl_sh tbs S t_number trial x t)"
      unfolding P_def u_def by blast
  qed
  then show "shape C T S t'"
    and "\<forall>c<C. \<forall>p<T.
           if trials ! p = trial
           then cell_ok (latency_rule (bsl_vals ! c) tbs) (select (mask_eq trials trial) (psth ! c))
                  bins (bsl_sh c t_number) (mask_eq trials trial) S t' c p
           else same_cell S t0 t' c p"
    unfolding P_def msk_def by simp_all
qed

lemma shape_empty:
  "shape C T S \<lparr>lat_latency = replicate C (replicate T None),
                 lat_shuffled = replicate C (replicate T (replicate S None))\<rparr>"
  by (simp add: shape_def)

lemma group_loop:
  assumes sh: "shape C T S t0"
    and wf: "\<forall>c<C. length (psth ! c) = length trials" "T = length trials"
    and dist: "distinct trial_set"
    and cp: "c < C" "p < T" and tn: "tn < length trial_set" "trial_set ! tn = trials ! p"
    and run: "t' = fold (\<lambda>(t_number, trial).
                 fold (cluster_step psth bins trials bsl_vals bsl_sh tbs S t_number trial)
                   [0 ..< C])
               (enumerate 0 trial_set) t0"
  shows "cell_ok (latency_rule (bsl_vals ! c) tbs) (select (mask_eq trials (trials ! p)) (psth ! c))
           bins (bsl_sh c tn) (mask_eq trials (trials ! p)) S t' c p"
proof -
  define R where "R = (\<lambda>pre u. shape C T S u \<and>
     (\<forall>c<C. \<forall>p<T. \<forall>tn. (tn, trials ! p) \<in> set pre \<longrightarrow>
        cell_ok (latency_rule (bsl_vals ! c) tbs) (select (mask_eq trials (trials ! p)) (psth ! c))
          bins (bsl_sh c tn) (mask_eq trials (trials ! p)) S u c p))"
  have "R (enumerate 0 trial_set) t'"
    unfolding run
  proof (rule fold_induct)
    show "R [] t0" using sh by (simp add: R_def)
  next
    fix pre x post t
    assume split: "enumerate 0 trial_set = pre @ x # post" and inv: "R pre t"
    obtain tn' g' where x: "x = (tn', g')" by (cases x)
    define u where "u = fold (cluster_step psth bins trials bsl_vals bsl_sh tbs S tn' g')
                   [0 ..< C] t"
    from inv have sht: "shape C T S t" by (simp add: R_def)
    note cl = cluster_loop[OF sht wf u_def]
    have "map snd (enumerate 0 trial_set) = trial_set" by simp
    then have "distinct (map snd (pre @ x # post))" using dist split by metis
    then have fresh: "g' \<notin> snd ` set pre" by (simp add: x)
    have cells: "cell_ok (latency_rule (bsl_vals ! c) tbs)
          (select (mask_eq trials (trials ! p)) (psth ! c))
          bins (bsl_sh c tn) (mask_eq trials (trials ! p)) S u c p"
      if cp: "c < C" "p < T" and mem: "(tn, trials ! p) \<in> set (pre @ [x])" for c p tn
    proof (cases "(tn, trials ! p) = x")
      case True
      then have e: "tn = tn'" "trials ! p = g'" by (simp_all add: x)
      from cl(2) cp e(2) have "cell_ok (latency_rule (bsl_vals ! c) tbs)
          (select (mask_eq trials g') (psth ! c))
          bins (bsl_sh c tn') (mask_eq trials g') S u c p" by auto
      then show ?thesis by (simp add: e)
    next
      case False
      with mem have inpre: "(tn, trials ! p) \<in> set pre" by simp
      then have "trials ! p \<in> snd ` set pre" by force
      with fresh have "trials ! p \<noteq> g'" by auto
      with cl(2) cp have same: "same_cell S t u c p" by auto
      from inv cp inpre have "cell_ok (latency_rule (bsl_vals ! c) tbs)
          (select (mask_eq trials (trials ! p)) (psth ! c))
          bins (bsl_sh c tn) (mask_eq trials (trials ! p)) S t c p"
        unfolding R_def by blast
      from cell_ok_same[OF same this] show ?thesis .
    qed
    from cl(1) cells
    show "R (pre @ [x]) ((case x of (t_number, trial) \<Rightarrow>
              fold (cluster_step psth bins trials bsl_vals bsl_sh tbs S t_number trial)
                [0 ..< C]) t)"
      unfolding R_def u_def x by (simp only: prod.case) blast
  qed
  moreover have "(tn, trials ! p) \<in> set (enumerate 0 trial_set)"
    using tn by (simp add: in_set_enumerate_eq)
  ultimately show ?thesis using cp unfolding R_def by blast
qed

lemma distinct_np_unique: "distinct (np_unique xs)"
  by (simp add: np_unique_def)

lemma set_np_unique: "set (np_unique xs) = set xs"
  by (simp add: np_unique_def)

lemma n_trials_wf:
  "\<forall>c<length psth. length (psth ! c) = length trials \<Longrightarrow> c < length psth
   \<Longrightarrow> n_trials psth = length trials"
  by (cases psth) (auto simp: n_trials_def)

lemma latencies_stim_returns:
  "2 \<le> length bins \<Longrightarrow> fst (latencies_stim rnd psth bins trials current_bsl S) = None"
  by (simp add: latencies_stim_def Let_def)

lemma latencies_stim_cells:
  assumes bins: "2 \<le> length bins"
    and wf: "\<forall>c<length psth. length (psth ! c) = length trials"
    and cp: "c < length psth" "p < length trials"
    and tn: "tn < length (np_unique trials)" "np_unique trials ! tn = trials ! p"
  shows "cell_ok (latency_rule (bsl_values psth bins current_bsl ! c) (bins ! 1 - bins ! 0))
           (select (mask_eq trials (trials ! p)) (psth ! c))
           bins (bsl_shuffled rnd current_bsl c tn) (mask_eq trials (trials ! p)) S
           (snd (latencies_stim rnd psth bins trials current_bsl S)) c p"
proof -
  have T: "n_trials psth = length trials" using wf cp(1) by (rule n_trials_wf)
  have lb: "length (bsl_values psth bins current_bsl) = length psth"
    by (simp add: bsl_values_def)
  have out: "snd (latencies_stim rnd psth bins trials current_bsl S) =
      fold (\<lambda>(t_number, trial).
        fold (cluster_step psth bins trials (bsl_values psth bins current_bsl)
                    (bsl_shuffled rnd current_bsl) (bins ! 1 - bins ! 0) S t_number trial)
          [0 ..< length psth])
      (enumerate 0 (np_unique trials))
      \<lparr>lat_latency = replicate (length psth) (replicate (length trials) None),
        lat_shuffled = replicate (length psth)
          (replicate (length trials) (replicate S None))\<rparr>"
    using bins by (simp add: latencies_stim_def Let_def lb T)
  show ?thesis
    unfolding out
    by (rule group_loop[OF shape_empty wf refl distinct_np_unique cp tn refl])
qed

subsection \<open>Evaluation of the worked example\<close>

lemma ex_sizes:
  "2 \<le> length ex_bins"
  "\<forall>c<length ex_psth. length (ex_psth ! c) = length ex_trials"
  "\<forall>c<length ex_psth. \<forall>r\<in>set (ex_psth ! c). length r = length ex_bins"
  "ex_bsl_window ! 0 < ex_bsl_window ! 1"
  "0 < length ex_psth" "1 < length ex_psth"
  "0 < length ex_trials" "1 < length ex_trials" "2 < length ex_trials"
  "0 < length (np_unique ex_trials)" "1 < length (np_unique ex_trials)"
  "np_unique ex_trials ! 0 = ex_trials ! 0" "np_unique ex_trials ! 1 = ex_trials ! 1"
  "np_unique ex_trials ! 0 = ex_trials ! 2"
  by (simp_all add: ex_psth_def ex_trials_def ex_bins_def ex_bsl_window_def np_unique_def
      numeral_2_eq_2 All_less_Suc)

lemma ex_draws:
  "0 \<le> ex_rnd c t s" "ex_rnd c t s < 1"
  by (simp_all add: ex_rnd_def)

lemma ex_refs:
  "bsl_shuffled ex_rnd ex_bsl_window 0 0 0 = - 1 / 100"
  "bsl_shuffled ex_rnd ex_bsl_window 0 0 1 = - 1 / 20"
  "bsl_shuffled ex_rnd ex_bsl_window 1 0 1 = - 9 / 100"
  by (simp_all add: bsl_shuffled_def ex_rnd_def ex_bsl_window_def)

lemma ex_rates:
  "bsl_values ex_psth ex_bins ex_bsl_window ! 0 = 10 / 3"
  "bsl_values ex_psth ex_bins ex_bsl_window ! 1 = 0"
  "ex_bins ! 1 - ex_bins ! 0 = 1 / 20"
  by (simp_all add: bsl_values_def np_mean_def select_def mask_between_def
      ex_bins_def ex_psth_def ex_bsl_window_def)

lemma ex_ranks:
  "rank (mask_eq ex_trials (ex_trials ! 0)) 0 = 0"
  "rank (mask_eq ex_trials (ex_trials ! 1)) 1 = 0"
  "rank (mask_eq ex_trials (ex_trials ! 2)) 2 = 1"
  by (simp_all add: rank_def mask_eq_def ex_trials_def numeral_2_eq_2)

lemma ex_rows_onset:
  "map (select (mask_ge ex_bins 0)) (select (mask_eq ex_trials (ex_trials ! 2)) (ex_psth ! 0))
     = [[0, 0, 0], [7, 0, 0]]"
  "map (select (mask_ge ex_bins 0)) (select (mask_eq ex_trials (ex_trials ! 1)) (ex_psth ! 0))
     = [[0, 0, 0]]"
  "map (select (mask_ge ex_bins 0)) (select (mask_eq ex_trials (ex_trials ! 0)) (ex_psth ! 1))
     = [[0, 1, 0], [1, 0, 0]]"
  by (simp_all add: select_def mask_ge_def mask_eq_def ex_bins_def ex_trials_def ex_psth_def)

lemma ex_rows_shuffled:
  "map (select (mask_ge ex_bins (bsl_shuffled ex_rnd ex_bsl_window 0 0 0)))
     (select (mask_eq ex_trials (ex_trials ! 2)) (ex_psth ! 0)) = [[0, 0, 0], [7, 0, 0]]"
  "map (select (mask_ge ex_bins (bsl_shuffled ex_rnd ex_bsl_window 0 0 1)))
     (select (mask_eq ex_trials (ex_trials ! 2)) (ex_psth ! 0)) = [[0, 0, 0, 0], [0, 7, 0, 0]]"
  "map (select (mask_ge ex_bins (bsl_shuffled ex_rnd ex_bsl_window 1 0 1)))
     (select (mask_eq ex_trials (ex_trials ! 0)) (ex_psth ! 1))
     = [[0, 0, 0, 1, 0], [0, 0, 1, 0, 0]]"
  by (simp_all add: select_def mask_ge_def mask_eq_def bsl_shuffled_def ex_rnd_def
      ex_bins_def ex_trials_def ex_psth_def ex_bsl_window_def)

text \<open>
  \<open>latency_core_stats\<close> on the rows of the example. Seven spikes in a bin where the
  baseline rate predicts a sixth or a third of a spike cross the threshold at that bin.
\<close>

lemma ex_scan_onset: "scan_bins (10 / 3) [7, 0, 0] (1 / 20) [0, 1] 0 = 0"
proof -
  have a: "sum_list (take (0 + 1) [7, 0, 0 :: int]) - 1 = 6" by simp
  have b: "(10 / 3 :: real) * (real (0 + 1) * (1 / 20)) = 1 / 6" by simp
  have "1 - poisson_cdf 6 (1 / 6) \<le> 10 / 10 ^ 6" by (rule poisson_tail_seven) simp_all
  then have "1 - poisson_cdf (sum_list (take (0 + 1) [7, 0, 0]) - 1)
                 ((10 / 3) * (real (0 + 1) * (1 / 20))) \<le> 10 / 10 ^ 6"
    by (simp only: a b)
  then show ?thesis by (rule scan_bins_crosses)
qed

lemma ex_scan_shuffled: "scan_bins (10 / 3) [0, 7, 0, 0] (1 / 20) [0, 1, 2] 0 = 1"
proof -
  have z: "sum_list (take (0 + 1) [0, 7, 0, 0 :: int]) = 0" by simp
  have a: "sum_list (take (1 + 1) [0, 7, 0, 0 :: int]) - 1 = 6" by simp
  have b: "(10 / 3 :: real) * (real (1 + 1) * (1 / 20)) = 1 / 3" by simp
  have "1 - poisson_cdf 6 (1 / 3) \<le> 10 / 10 ^ 6" by (rule poisson_tail_seven) simp_all
  then have c: "1 - poisson_cdf (sum_list (take (1 + 1) [0, 7, 0, 0]) - 1)
                 ((10 / 3) * (real (1 + 1) * (1 / 20))) \<le> 10 / 10 ^ 6"
    by (simp only: a b)
  have "scan_bins (10 / 3) [0, 7, 0, 0] (1 / 20) [0, 1, 2] 0
        = scan_bins (10 / 3) [0, 7, 0, 0] (1 / 20) [1, 2] 0"
    by (rule scan_bins_silent[OF z])
  also have "\<dots> = 1" by (rule scan_bins_crosses[OF c])
  finally show ?thesis .
qed

lemma ex_core_onset:
  "latency_core_stats (10 / 3) [[0, 0, 0], [7, 0, 0]] (1 / 20) = [Fl 0, Fl (1 / 20)]"
proof -
  have ne: "[[0, 0, 0], [7, 0, 0 :: int]] \<noteq> []" by simp
  have nc: "2 \<le> n_cols [[0, 0, 0], [7, 0, 0]]" by (simp add: n_cols_def)
  have f: "last [[0, 0, 0], [7, 0, 0 :: int]] = [7, 0, 0]"
      "n_cols [[0, 0, 0], [7, 0, 0]] = 3" "[0 ..< 3 - 1] = [0, 1]"
      "length [[0, 0, 0], [7, 0, 0 :: int]] = 2"
    by (simp_all add: n_cols_def upt_rec)
  show ?thesis
    unfolding latency_core_stats_last_row[OF ne nc] f ex_scan_onset
    by (simp add: numeral_2_eq_2)
qed

lemma ex_core_shuffled:
  "latency_core_stats (10 / 3) [[0, 0, 0, 0], [0, 7, 0, 0]] (1 / 20) = [Fl 0, Fl (2 / 20)]"
proof -
  have ne: "[[0, 0, 0, 0], [0, 7, 0, 0 :: int]] \<noteq> []" by simp
  have nc: "2 \<le> n_cols [[0, 0, 0, 0], [0, 7, 0, 0]]" by (simp add: n_cols_def)
  have f: "last [[0, 0, 0, 0], [0, 7, 0, 0 :: int]] = [0, 7, 0, 0]"
      "n_cols [[0, 0, 0, 0], [0, 7, 0, 0]] = 4" "[0 ..< 4 - 1] = [0, 1, 2]"
      "length [[0, 0, 0, 0], [0, 7, 0, 0 :: int]] = 2"
    by (simp_all add: n_cols_def upt_rec)
  show ?thesis
    unfolding latency_core_stats_last_row[OF ne nc] f ex_scan_shuffled
    by (simp add: numeral_2_eq_2)
qed

lemma ex_core_silent: "latency_core_stats b [[0, 0, 0]] t = [NaN]"
  by (simp add: latency_core_stats_def n_cols_def upt_rec poisson_cdf_def Let_def)

lemma ex_median:
  "latency_median [[0, 1, 0], [1, 0, 0]] (1 / 20) = [Fl (2 / 20), Fl (1 / 20)]"
  "latency_median [[0, 0, 0, 1, 0], [0, 0, 1, 0, 0]] (1 / 20) = [Fl (4 / 20), Fl (3 / 20)]"
  by (simp_all add: latency_median_def latency_median_trial_def np_nonzero_def np_min_def)

subsection \<open>The stored latencies\<close>

lemma group_index_exists:
  assumes "p < length trials"
  shows "\<exists>tn<length (np_unique trials). np_unique trials ! tn = trials ! p"
proof -
  from assms have "trials ! p \<in> set (np_unique trials)" by (simp add: set_np_unique)
  then show ?thesis by (simp add: in_set_conv_nth)
qed

lemma cell_ok_core:
  assumes "cell_ok (latency_rule b t) rows bins refs msk S out c p" "b > 2"
  shows "lat_latency out ! c ! p =
           Some (fmul 1000 (latency_core_stats b (map (select (mask_ge bins 0)) rows) t ! rank msk p))"
    and "s < S \<Longrightarrow> lat_shuffled out ! c ! p ! s =
           Some (fmul 1000
             (latency_core_stats b (map (select (mask_ge bins (refs s))) rows) t ! rank msk p))"
  using assms by (simp_all add: cell_ok_def latency_rule_def)

lemma cell_ok_median:
  assumes "cell_ok (latency_rule b t) rows bins refs msk S out c p" "\<not> b > 2"
  shows "lat_latency out ! c ! p =
           Some (fmul 1000 (latency_median (map (select (mask_ge bins 0)) rows) t ! rank msk p))"
    and "s < S \<Longrightarrow> lat_shuffled out ! c ! p ! s =
           Some (fmul 1000 (latency_median (map (select (mask_ge bins (refs s))) rows) t ! rank msk p))"
  using assms by (simp_all add: cell_ok_def latency_rule_def)

lemma bsl_shuffled_in_window:
  assumes "b0 < b1" "0 \<le> u" "u < 1"
  shows "b0 \<le> u * (b1 - b0) + b0" "u * (b1 - b0) + b0 < (b1::real)"
proof -
  have "0 \<le> u * (b1 - b0)" using assms by simp
  then show "b0 \<le> u * (b1 - b0) + b0" by simp
  have "u * (b1 - b0) < 1 * (b1 - b0)"
    using assms by (intro mult_strict_right_mono) simp_all
  then show "u * (b1 - b0) + b0 < b1" by simp
qed

text \<open>
  Claim C3. In \<open>latencies\<close>, for every cluster and every trial the loops complete and the
  latency stored for the trial comes from \<open>latency_core_stats\<close> when the cluster's
  baseline rate is greater than 2 Hz and from \<open>latency_median\<close> otherwise, each applied to
  the bins at or after onset of the trials of the trial's group and scaled to
  milliseconds. (The tensor is well formed: every cluster has one row per trial and every
  row one count per bin; there are at least two bins, as \<open>bins[1] - bins[0]\<close> needs.)
\<close>

theorem latencies_dispatch_on_baseline_rate:
  assumes "2 \<le> length bins"
    and "\<forall>c<length psth. length (psth ! c) = length trials"
    and "\<forall>c<length psth. \<forall>r\<in>set (psth ! c). length r = length bins"
    and "current_bsl ! 0 < current_bsl ! 1"
    and "c < length psth" and "p < length trials"
  shows "fst (latencies_stim rnd psth bins trials current_bsl num_shuffles) = None \<and>
         (bsl_values psth bins current_bsl ! c > 2 \<longrightarrow>
            lat_latency (snd (latencies_stim rnd psth bins trials current_bsl num_shuffles)) ! c ! p =
              Some (fmul 1000
                (latency_core_stats (bsl_values psth bins current_bsl ! c)
                   (map (select (mask_ge bins 0)) (select (mask_eq trials (trials ! p)) (psth ! c)))
                   (bins ! 1 - bins ! 0) ! rank (mask_eq trials (trials ! p)) p))) \<and>
         (\<not> bsl_values psth bins current_bsl ! c > 2 \<longrightarrow>
            lat_latency (snd (latencies_stim rnd psth bins trials current_bsl num_shuffles)) ! c ! p =
              Some (fmul 1000
                (latency_median
                   (map (select (mask_ge bins 0)) (select (mask_eq trials (trials ! p)) (psth ! c)))
                   (bins ! 1 - bins ! 0) ! rank (mask_eq trials (trials ! p)) p)))"
proof -
  from group_index_exists[OF assms(6)] obtain tn where
    tn: "tn < length (np_unique trials)" "np_unique trials ! tn = trials ! p" by blast
  note ok = latencies_stim_cells[OF assms(1) assms(2) assms(5) assms(6) tn,
              of current_bsl rnd num_shuffles]
  show ?thesis
    using latencies_stim_returns[OF assms(1), of rnd psth trials current_bsl num_shuffles]
      cell_ok_core(1)[OF ok] cell_ok_median(1)[OF ok] by blast
qed

theorem latencies_dispatch_on_baseline_rate_witness:
  "fst (latencies_stim ex_rnd ex_psth ex_bins ex_trials ex_bsl_window 2) = None \<and>
   bsl_values ex_psth ex_bins ex_bsl_window ! 0 = 10 / 3 \<and>
   lat_latency (snd (latencies_stim ex_rnd ex_psth ex_bins ex_trials ex_bsl_window 2)) ! 0 ! 2
     = Some (Fl 50) \<and>
   lat_latency (snd (latencies_stim ex_rnd ex_psth ex_bins ex_trials ex_bsl_window 2)) ! 0 ! 1
     = Some NaN \<and>
   bsl_values ex_psth ex_bins ex_bsl_window ! 1 = 0 \<and>
   lat_latency (snd (latencies_stim ex_rnd ex_psth ex_bins ex_trials ex_bsl_window 2)) ! 1 ! 0
     = Some (Fl 100)"
proof -
  note e = ex_rates ex_ranks ex_rows_onset ex_core_onset ex_core_silent ex_median
  note t02 = latencies_dispatch_on_baseline_rate
              [OF ex_sizes(1) ex_sizes(2) ex_sizes(3) ex_sizes(4) ex_sizes(5) ex_sizes(9),
               of ex_rnd 2, unfolded e]
  note t01 = latencies_dispatch_on_baseline_rate
              [OF ex_sizes(1) ex_sizes(2) ex_sizes(3) ex_sizes(4) ex_sizes(5) ex_sizes(8),
               of ex_rnd 2, unfolded e]
  note t10 = latencies_dispatch_on_baseline_rate
              [OF ex_sizes(1) ex_sizes(2) ex_sizes(3) ex_sizes(4) ex_sizes(6) ex_sizes(7),
               of ex_rnd 2, unfolded e]
  from t02 have a: "fst (latencies_stim ex_rnd ex_psth ex_bins ex_trials ex_bsl_window 2) = None"
    "lat_latency (snd (latencies_stim ex_rnd ex_psth ex_bins ex_trials ex_bsl_window 2)) ! 0 ! 2
       = Some (Fl 50)"
    by simp_all
  from t01 have b:
    "lat_latency (snd (latencies_stim ex_rnd ex_psth ex_bins ex_trials ex_bsl_window 2)) ! 0 ! 1
       = Some NaN"
    by simp
  from t10 have c:
    "lat_latency (snd (latencies_stim ex_rnd ex_psth ex_bins ex_trials ex_bsl_window 2)) ! 1 ! 0
       = Some (Fl 100)"
    by simp
  from a b c ex_rates(1,2) show ?thesis by blast
qed

text \<open>
  Claim C4. For each of the \<open>num_shuffles\<close> repetitions the reference time is the random
  number drawn for that cluster, trial group and repetition, scaled into the baseline
  window: a number of \<open>[0, 1)\<close> times the length of the window plus its start, so it lies
  inside the window. The counts are re-anchored to the bins at or after the reference, and
  the shuffled latency comes from the same function as the latency of the real trial:
  \<open>latency_core_stats\<close> for both when the baseline rate is above 2 Hz, \<open>latency_median\<close>
  for both otherwise. (The random numbers are inputs of the model; their distribution is
  not modelled.)
\<close>

theorem latencies_shuffles_reanchored_same_rule:
  assumes "2 \<le> length bins"
    and "\<forall>c<length psth. length (psth ! c) = length trials"
    and "\<forall>c<length psth. \<forall>r\<in>set (psth ! c). length r = length bins"
    and "current_bsl ! 0 < current_bsl ! 1"
    and "c < length psth" and "p < length trials" and "s < num_shuffles"
    and "tn < length (np_unique trials)" and "np_unique trials ! tn = trials ! p"
    and "0 \<le> rnd c tn s" and "rnd c tn s < 1"
  shows "fst (latencies_stim rnd psth bins trials current_bsl num_shuffles) = None \<and>
         bsl_shuffled rnd current_bsl c tn s =
           rnd c tn s * (current_bsl ! 1 - current_bsl ! 0) + current_bsl ! 0 \<and>
         current_bsl ! 0 \<le> bsl_shuffled rnd current_bsl c tn s \<and>
         bsl_shuffled rnd current_bsl c tn s < current_bsl ! 1 \<and>
         (bsl_values psth bins current_bsl ! c > 2 \<longrightarrow>
            lat_shuffled (snd (latencies_stim rnd psth bins trials current_bsl num_shuffles))
                ! c ! p ! s =
              Some (fmul 1000
                (latency_core_stats (bsl_values psth bins current_bsl ! c)
                   (map (select (mask_ge bins (bsl_shuffled rnd current_bsl c tn s)))
                      (select (mask_eq trials (trials ! p)) (psth ! c)))
                   (bins ! 1 - bins ! 0) ! rank (mask_eq trials (trials ! p)) p)) \<and>
            lat_latency (snd (latencies_stim rnd psth bins trials current_bsl num_shuffles)) ! c ! p =
              Some (fmul 1000
                (latency_core_stats (bsl_values psth bins current_bsl ! c)
                   (map (select (mask_ge bins 0)) (select (mask_eq trials (trials ! p)) (psth ! c)))
                   (bins ! 1 - bins ! 0) ! rank (mask_eq trials (trials ! p)) p))) \<and>
         (\<not> bsl_values psth bins current_bsl ! c > 2 \<longrightarrow>
            lat_shuffled (snd (latencies_stim rnd psth bins trials current_bsl num_shuffles))
                ! c ! p ! s =
              Some (fmul 1000
                (latency_median
                   (map (select (mask_ge bins (bsl_shuffled rnd current_bsl c tn s)))
                      (select (mask_eq trials (trials ! p)) (psth ! c)))
                   (bins ! 1 - bins ! 0) ! rank (mask_eq trials (trials ! p)) p)) \<and>
            lat_latency (snd (latencies_stim rnd psth bins trials current_bsl num_shuffles)) ! c ! p =
              Some (fmul 1000
                (latency_median
                   (map (select (mask_ge bins 0)) (select (mask_eq trials (trials ! p)) (psth ! c)))
                   (bins ! 1 - bins ! 0) ! rank (mask_eq trials (trials ! p)) p)))"
proof -
  note ok = latencies_stim_cells[OF assms(1) assms(2) assms(5) assms(6) assms(8) assms(9),
              of current_bsl rnd num_shuffles]
  have d: "bsl_shuffled rnd current_bsl c tn s =
           rnd c tn s * (current_bsl ! 1 - current_bsl ! 0) + current_bsl ! 0"
    by (simp add: bsl_shuffled_def)
  have w: "current_bsl ! 0 \<le> bsl_shuffled rnd current_bsl c tn s"
      "bsl_shuffled rnd current_bsl c tn s < current_bsl ! 1"
    unfolding d
    using bsl_shuffled_in_window[OF assms(4) assms(10) assms(11)] by simp_all
  show ?thesis
    using latencies_stim_returns[OF assms(1), of rnd psth trials current_bsl num_shuffles]
      d w cell_ok_core(1)[OF ok] cell_ok_core(2)[OF ok _ assms(7)]
      cell_ok_median(1)[OF ok] cell_ok_median(2)[OF ok _ assms(7)]
    by blast
qed

theorem latencies_shuffles_reanchored_same_rule_witness:
  "fst (latencies_stim ex_rnd ex_psth ex_bins ex_trials ex_bsl_window 2) = None \<and>
   bsl_shuffled ex_rnd ex_bsl_window 0 0 0 = - 1 / 100 \<and>
   bsl_shuffled ex_rnd ex_bsl_window 0 0 1 = - 1 / 20 \<and>
   lat_latency (snd (latencies_stim ex_rnd ex_psth ex_bins ex_trials ex_bsl_window 2)) ! 0 ! 2
     = Some (Fl 50) \<and>
   lat_shuffled (snd (latencies_stim ex_rnd ex_psth ex_bins ex_trials ex_bsl_window 2)) ! 0 ! 2 ! 0
     = Some (Fl 50) \<and>
   lat_shuffled (snd (latencies_stim ex_rnd ex_psth ex_bins ex_trials ex_bsl_window 2)) ! 0 ! 2 ! 1
     = Some (Fl 100) \<and>
   bsl_shuffled ex_rnd ex_bsl_window 1 0 1 = - 9 / 100 \<and>
   lat_latency (snd (latencies_stim ex_rnd ex_psth ex_bins ex_trials ex_bsl_window 2)) ! 1 ! 0
     = Some (Fl 100) \<and>
   lat_shuffled (snd (latencies_stim ex_rnd ex_psth ex_bins ex_trials ex_bsl_window 2)) ! 1 ! 0 ! 1
     = Some (Fl 200)"
proof -
  have s0: "(0::nat) < 2" and s1: "(1::nat) < 2" by simp_all
  note e = ex_rates ex_ranks ex_rows_onset ex_rows_shuffled ex_core_onset ex_core_shuffled
    ex_median
  note t0 = latencies_shuffles_reanchored_same_rule
              [where rnd = ex_rnd and c = 0 and tn = 0 and s = 0, OF ex_sizes(1) ex_sizes(2) ex_sizes(3) ex_sizes(4) ex_sizes(5) ex_sizes(9) s0
                  ex_sizes(10) ex_sizes(14) ex_draws(1)[of 0 0 0] ex_draws(2)[of 0 0 0],
               unfolded e]
  note t1 = latencies_shuffles_reanchored_same_rule
              [where rnd = ex_rnd and c = 0 and tn = 0 and s = 1, OF ex_sizes(1) ex_sizes(2) ex_sizes(3) ex_sizes(4) ex_sizes(5) ex_sizes(9) s1
                  ex_sizes(10) ex_sizes(14) ex_draws(1)[of 0 0 1] ex_draws(2)[of 0 0 1],
               unfolded e]
  note t2 = latencies_shuffles_reanchored_same_rule
              [where rnd = ex_rnd and c = 1 and tn = 0 and s = 1, OF ex_sizes(1) ex_sizes(2) ex_sizes(3) ex_sizes(4) ex_sizes(6) ex_sizes(7) s1
                  ex_sizes(10) ex_sizes(12) ex_draws(1)[of 1 0 1] ex_draws(2)[of 1 0 1],
               unfolded e]
  from t0 have a:
    "fst (latencies_stim ex_rnd ex_psth ex_bins ex_trials ex_bsl_window 2) = None"
    "lat_latency (snd (latencies_stim ex_rnd ex_psth ex_bins ex_trials ex_bsl_window 2)) ! 0 ! 2
       = Some (Fl 50)"
    "lat_shuffled (snd (latencies_stim ex_rnd ex_psth ex_bins ex_trials ex_bsl_window 2)) ! 0 ! 2 ! 0
       = Some (Fl 50)"
    by simp_all
  from t1 have b:
    "lat_shuffled (snd (latencies_stim ex_rnd ex_psth ex_bins ex_trials ex_bsl_window 2)) ! 0 ! 2 ! 1
       = Some (Fl 100)"
    by simp
  from t2 have c:
    "lat_latency (snd (latencies_stim ex_rnd ex_psth ex_bins ex_trials ex_bsl_window 2)) ! 1 ! 0
       = Some (Fl 100)"
    "lat_shuffled (snd (latencies_stim ex_rnd ex_psth ex_bins ex_trials ex_bsl_window 2)) ! 1 ! 0 ! 1
       = Some (Fl 200)"
    by simp_all
  from a b c ex_refs show ?thesis by blast
qed

lemma nth_bsl_values:
  "c < length psth \<Longrightarrow>
   bsl_values psth bins current_bsl ! c =
     sum_list (map (\<lambda>row. real_of_int (sum_list
                 (select (mask_between bins (current_bsl ! 0) (current_bsl ! 1)) row))
               / (current_bsl ! 1 - current_bsl ! 0)) (psth ! c))
       / real (length (psth ! c))"
  by (simp add: bsl_values_def np_mean_def)

text \<open>
  Claim C9. The baseline rate that selects the model is one number per cluster: the mean,
  over all trials of the stimulus whatever their trial group, of the summed baseline-window
  counts of the trial divided by the baseline duration. Every trial and every shuffle of
  the cluster therefore takes the same branch.
\<close>

theorem latencies_baseline_rate_per_cluster:
  assumes "2 \<le> length bins"
    and "\<forall>c<length psth. length (psth ! c) = length trials"
    and "\<forall>c<length psth. \<forall>r\<in>set (psth ! c). length r = length bins"
    and "current_bsl ! 0 < current_bsl ! 1"
    and "c < length psth" and "p < length trials" and "s < num_shuffles"
    and "tn < length (np_unique trials)" and "np_unique trials ! tn = trials ! p"
  shows "fst (latencies_stim rnd psth bins trials current_bsl num_shuffles) = None \<and>
         bsl_values psth bins current_bsl ! c =
           sum_list (map (\<lambda>row. real_of_int (sum_list
                       (select (mask_between bins (current_bsl ! 0) (current_bsl ! 1)) row))
                     / (current_bsl ! 1 - current_bsl ! 0)) (psth ! c))
             / real (length trials) \<and>
         (bsl_values psth bins current_bsl ! c > 2 \<longrightarrow>
            lat_latency (snd (latencies_stim rnd psth bins trials current_bsl num_shuffles)) ! c ! p =
              Some (fmul 1000
                (latency_core_stats (bsl_values psth bins current_bsl ! c)
                   (map (select (mask_ge bins 0)) (select (mask_eq trials (trials ! p)) (psth ! c)))
                   (bins ! 1 - bins ! 0) ! rank (mask_eq trials (trials ! p)) p)) \<and>
            lat_shuffled (snd (latencies_stim rnd psth bins trials current_bsl num_shuffles))
                ! c ! p ! s =
              Some (fmul 1000
                (latency_core_stats (bsl_values psth bins current_bsl ! c)
                   (map (select (mask_ge bins (bsl_shuffled rnd current_bsl c tn s)))
                      (select (mask_eq trials (trials ! p)) (psth ! c)))
                   (bins ! 1 - bins ! 0) ! rank (mask_eq trials (trials ! p)) p))) \<and>
         (\<not> bsl_values psth bins current_bsl ! c > 2 \<longrightarrow>
            lat_latency (snd (latencies_stim rnd psth bins trials current_bsl num_shuffles)) ! c ! p =
              Some (fmul 1000
                (latency_median
                   (map (select (mask_ge bins 0)) (select (mask_eq trials (trials ! p)) (psth ! c)))
                   (bins ! 1 - bins ! 0) ! rank (mask_eq trials (trials ! p)) p)) \<and>
            lat_shuffled (snd (latencies_stim rnd psth bins trials current_bsl num_shuffles))
                ! c ! p ! s =
              Some (fmul 1000
                (latency_median
                   (map (select (mask_ge bins (bsl_shuffled rnd current_bsl c tn s)))
                      (select (mask_eq trials (trials ! p)) (psth ! c)))
                   (bins ! 1 - bins ! 0) ! rank (mask_eq trials (trials ! p)) p)))"
proof -
  note ok = latencies_stim_cells[OF assms(1) assms(2) assms(5) assms(6) assms(8) assms(9),
              of current_bsl rnd num_shuffles]
  have len: "length (psth ! c) = length trials" using assms(2) assms(5) by simp
  have rate: "bsl_values psth bins current_bsl ! c =
           sum_list (map (\<lambda>row. real_of_int (sum_list
                       (select (mask_between bins (current_bsl ! 0) (current_bsl ! 1)) row))
                     / (current_bsl ! 1 - current_bsl ! 0)) (psth ! c))
             / real (length trials)"
    using nth_bsl_values[OF assms(5), of bins current_bsl] by (simp only: len)
  show ?thesis
    using latencies_stim_returns[OF assms(1), of rnd psth trials current_bsl num_shuffles]
      rate cell_ok_core(1)[OF ok] cell_ok_core(2)[OF ok _ assms(7)]
      cell_ok_median(1)[OF ok] cell_ok_median(2)[OF ok _ assms(7)]
    by blast
qed

lemma ex_rate_sums:
  "sum_list (map (\<lambda>row. real_of_int (sum_list
       (select (mask_between ex_bins (ex_bsl_window ! 0) (ex_bsl_window ! 1)) row))
     / (ex_bsl_window ! 1 - ex_bsl_window ! 0)) (ex_psth ! 0)) / real (length ex_trials) = 10 / 3"
  "sum_list (map (\<lambda>row. real_of_int (sum_list
       (select (mask_between ex_bins (ex_bsl_window ! 0) (ex_bsl_window ! 1)) row))
     / (ex_bsl_window ! 1 - ex_bsl_window ! 0)) (ex_psth ! 1)) / real (length ex_trials) = 0"
  by (simp_all add: select_def mask_between_def ex_bins_def ex_trials_def ex_psth_def
      ex_bsl_window_def)

theorem latencies_baseline_rate_per_cluster_witness:
  "fst (latencies_stim ex_rnd ex_psth ex_bins ex_trials ex_bsl_window 2) = None \<and>
   bsl_values ex_psth ex_bins ex_bsl_window ! 0 = 10 / 3 \<and>
   lat_latency (snd (latencies_stim ex_rnd ex_psth ex_bins ex_trials ex_bsl_window 2)) ! 0 ! 2
     = Some (Fl 50) \<and>
   lat_shuffled (snd (latencies_stim ex_rnd ex_psth ex_bins ex_trials ex_bsl_window 2)) ! 0 ! 2 ! 1
     = Some (Fl 100) \<and>
   lat_latency (snd (latencies_stim ex_rnd ex_psth ex_bins ex_trials ex_bsl_window 2)) ! 0 ! 1
     = Some NaN \<and>
   bsl_values ex_psth ex_bins ex_bsl_window ! 1 = 0 \<and>
   lat_latency (snd (latencies_stim ex_rnd ex_psth ex_bins ex_trials ex_bsl_window 2)) ! 1 ! 0
     = Some (Fl 100) \<and>
   lat_shuffled (snd (latencies_stim ex_rnd ex_psth ex_bins ex_trials ex_bsl_window 2)) ! 1 ! 0 ! 1
     = Some (Fl 200)"
proof -
  have s1: "(1::nat) < 2" by simp
  note e = ex_ranks ex_rows_onset ex_rows_shuffled
  note t02 = latencies_baseline_rate_per_cluster
              [OF ex_sizes(1) ex_sizes(2) ex_sizes(3) ex_sizes(4) ex_sizes(5) ex_sizes(9) s1
                  ex_sizes(10) ex_sizes(14), of ex_rnd]
  note t01 = latencies_baseline_rate_per_cluster
              [OF ex_sizes(1) ex_sizes(2) ex_sizes(3) ex_sizes(4) ex_sizes(5) ex_sizes(8) s1
                  ex_sizes(11) ex_sizes(13), of ex_rnd]
  note t10 = latencies_baseline_rate_per_cluster
              [OF ex_sizes(1) ex_sizes(2) ex_sizes(3) ex_sizes(4) ex_sizes(6) ex_sizes(7) s1
                  ex_sizes(10) ex_sizes(12), of ex_rnd]
  from t02 have r0: "bsl_values ex_psth ex_bins ex_bsl_window ! 0 = 10 / 3"
    unfolding ex_rate_sums by blast
  from t10 have r1: "bsl_values ex_psth ex_bins ex_bsl_window ! 1 = 0"
    unfolding ex_rate_sums by blast
  from t02[unfolded r0 ex_rates(3) e ex_core_onset ex_core_shuffled] have a:
    "lat_latency (snd (latencies_stim ex_rnd ex_psth ex_bins ex_trials ex_bsl_window 2)) ! 0 ! 2
       = Some (Fl 50)"
    "lat_shuffled (snd (latencies_stim ex_rnd ex_psth ex_bins ex_trials ex_bsl_window 2)) ! 0 ! 2 ! 1
       = Some (Fl 100)"
    by simp_all
  from t01[unfolded r0 ex_rates(3) e ex_core_silent] have b:
    "lat_latency (snd (latencies_stim ex_rnd ex_psth ex_bins ex_trials ex_bsl_window 2)) ! 0 ! 1
       = Some NaN"
    by simp
  from t10[unfolded r1 ex_rates(3) e ex_median] have c:
    "lat_latency (snd (latencies_stim ex_rnd ex_psth ex_bins ex_trials ex_bsl_window 2)) ! 1 ! 0
       = Some (Fl 100)"
    "lat_shuffled (snd (latencies_stim ex_rnd ex_psth ex_bins ex_trials ex_bsl_window 2)) ! 1 ! 0 ! 1
       = Some (Fl 200)"
    by simp_all
  from t02 have f: "fst (latencies_stim ex_rnd ex_psth ex_bins ex_trials ex_bsl_window 2) = None"
    by blast
  from f r0 r1 a b c show ?thesis by blast
qed

section \<open>Properties of the session methods\<close>

subsection \<open>get\_raw\_psth on the worked session\<close>

lemma ex_where: "np_where_gt1 [[2, 2]] = ([0, 0], [0, 1])"
  by (simp add: np_where_gt1_def)

lemma ex_get_raw_psth:
  "get_raw_psth ex_helpers ex_session0 ex_window 4
     = (None, ex_session, [StimName ''a'', MinimumBinSize 1, MultispikeBins 1])"
  by (simp add: get_raw_psth_def psth_stim_step_def psth_cluster_step_def ex_where
      ex_helpers_def ex_session0_def ex_session_def ex_window_def ex_stim_psth_def
      trunc_def Let_def enumerate_eq_zip np_min_def np_max_def select_def numeral_2_eq_2)

lemma has_cell_gt1:
  "length (fst (np_where_gt1 a)) \<noteq> 0 \<or> length (snd (np_where_gt1 a)) \<noteq> 0
     \<longleftrightarrow> (\<exists>r<length a. \<exists>c<length (a ! r). a ! r ! c > 1)"
  by (auto simp: np_where_gt1_def Let_def filter_empty_conv) (blast | force)+

lemma multispike_bin_counts_clusters:
  "fst (snd (fold (psth_cluster_step h sp cl ev tbs ws we) (enumerate n ids) (psth, k, b)))
     = k + length (filter
         (\<lambda>cluster. \<exists>r c. r < length (fst (spike_times_to_bins h
                                (select (map (\<lambda>x. x = cluster) cl) sp) ev tbs ws we)) \<and>
                    c < length (fst (spike_times_to_bins h
                                (select (map (\<lambda>x. x = cluster) cl) sp) ev tbs ws we) ! r) \<and>
                    fst (spike_times_to_bins h
                                (select (map (\<lambda>x. x = cluster) cl) sp) ev tbs ws we) ! r ! c > 1)
         ids)"
proof (induction ids arbitrary: n psth k b)
  case Nil
  then show ?case by simp
next
  case (Cons cluster ids)
  obtain a bs where st: "spike_times_to_bins h (select (map (\<lambda>x. x = cluster) cl) sp) ev tbs ws we
      = (a, bs)" by (cases "spike_times_to_bins h (select (map (\<lambda>x. x = cluster) cl) sp) ev tbs ws we")
  have step: "psth_cluster_step h sp cl ev tbs ws we (n, cluster) (psth, k, b)
      = (psth[n := a],
         (if \<exists>r<length a. \<exists>c<length (a ! r). a ! r ! c > 1 then k + 1 else k), Some bs)"
    using has_cell_gt1[of a] by (simp add: psth_cluster_step_def st)
  show ?case
    by (simp add: step Cons.IH st)
qed

text \<open>
  Claim C5 takes the printed number for the number of (cluster, event, bin) cells above
  one. \<open>get_raw_psth\<close> adds one per cluster that has such a cell: on the worked session the
  call completes, stores the tensor and prints 1, while two cells of the tensor hold two
  spikes.
\<close>

theorem get_raw_psth_multispike_counts_clusters:
  "get_raw_psth ex_helpers ex_session0 ex_window 4
     = (None, ex_session, [StimName ''a'', MinimumBinSize 1, MultispikeBins 1]) \<and>
   self_psths ex_session = Some [(''a'', \<lparr>sp_psth = [[[2, 2]]], sp_bins = [- 2 / 1000, 2 / 1000]\<rparr>)] \<and>
   cells_gt1 [[[2, 2]]] = 2"
  by (simp add: ex_get_raw_psth) (simp add: ex_session_def ex_stim_psth_def cells_gt1_def)

subsection \<open>get\_raw\_firing\_rate: the required arguments\<close>

lemma smooth_needs_sm_time:
  "\<exists>e. get_raw_firing_rate h self time_bin_ms fr_window ''smooth'' bsl_window None = (Some e, self)"
  by (auto simp: get_raw_firing_rate_def try_step_def fr_smoothing_times_def
      split: option.splits sum.splits)

lemma ex_get_raw_firing_rate:
  "get_raw_firing_rate ex_helpers ex_session (Scalar 4) ex_window ''bsl-subtracted'' None None =
     (Some (UnboundLocalError ''mean_fr''),
      ex_session\<lparr>self_fr_windows := Some [(''a'', ex_window)],
                 self_fr_bins := Some [],
                 self_raw_firing_rate := Some [(''a'', [[[0, 0]]])]\<rparr>)"
  by (simp add: get_raw_firing_rate_def fr_stim_step_def fr_trial_step_def fr_mode_def
      fr_smoothing_times_def fr_baseline_windows_def resolve_time_bins_def try_step_def
      index_list_def bin_width_def rebin_def dict_set_def get_key_for_stim_def
      trial_groups_of_def np_unique_def mask_between_def mask_eq_def select_def
      ex_helpers_def ex_session0_def ex_session_def ex_window_def ex_stim_psth_def
      trunc_def Let_def enumerate_eq_zip)

text \<open>
  Claim C6 asks both missing arguments to abort the call with a configuration error before
  any output. With mode \<open>smooth\<close> and no smoothing time the call does raise and leaves the
  object as it was. With mode \<open>bsl-subtracted\<close> and no baseline window no check fires: on
  the worked session the call clears the firing-rate attributes, stores the window and a
  zero tensor, and then stops at the unbound \<open>mean_fr\<close>.
\<close>

theorem get_raw_firing_rate_missing_arguments:
  "(\<exists>e. get_raw_firing_rate h self time_bin_ms fr_window ''smooth'' bsl_window None
          = (Some e, self)) \<and>
   get_raw_firing_rate ex_helpers ex_session (Scalar 4) ex_window ''bsl-subtracted'' None None =
     (Some (UnboundLocalError ''mean_fr''),
      ex_session\<lparr>self_fr_windows := Some [(''a'', ex_window)],
                 self_fr_bins := Some [],
                 self_raw_firing_rate := Some [(''a'', [[[0, 0]]])]\<rparr>)"
  by (intro conjI) (rule smooth_needs_sm_time, rule ex_get_raw_firing_rate)

subsection \<open>Stages called before get\_raw\_psth\<close>

text \<open>
  Claim C7 asks every stage that needs the PSTH to abort with a descriptive sequencing
  error when \<open>get_raw_psth\<close> has not run. \<open>get_raw_firing_rate\<close> and \<open>z_score_data\<close> catch
  the missing attribute and raise an exception that names \<open>get_raw_psth\<close>; \<open>latencies\<close>
  has no such guard and stops at the AttributeError of its first statement.
\<close>

theorem stages_before_get_raw_psth:
  "get_raw_firing_rate h (self\<lparr>self_NUM_STIM := None, self_psths := None\<rparr>)
       time_bin_ms fr_window mode bsl_window sm_time_ms
     = (Some (Exception ''Run get_raw_psth before running z_score_data''),
        self\<lparr>self_NUM_STIM := None, self_psths := None\<rparr>) \<and>
   z_score_data h (self\<lparr>self_NUM_STIM := None, self_psths := None\<rparr>) time_bin_ms bsl z_window
     = (Some (Exception ''Run get_raw_psth before running z_score_data''),
        self\<lparr>self_NUM_STIM := None, self_psths := None\<rparr>) \<and>
   latencies h rnd (self\<lparr>self_NUM_STIM := None, self_psths := None\<rparr>) bsl time_bin num_shuffles
     = (Some (AttributeError ''NUM_STIM''),
        self\<lparr>self_NUM_STIM := None, self_psths := None\<rparr>)"
  by (simp add: get_raw_firing_rate_def z_score_data_def latencies_def)

end
